theory Spec2Isabelle
  imports Complex_Main
begin

section \<open>Python values, errors and numeric helpers\<close>

text \<open>
  The simulator (\<^verbatim>\<open>ffta/simulation/cantilever.py\<close>) is written over Python floats
  and numpy arrays. Floats are modelled by the reals: rounding error, infinities and nan
  are not represented, and every place where the source would produce one of them without
  raising is written out as a branch of its own. Exceptions are values of \<open>error\<close>.
  Where the source truncates a double to an integer, the model truncates the exact value.
  Whether two computed doubles are equal bit for bit depends on the rounding, and this
  model cannot decide it.
\<close>

datatype error =
    AttributeError string
  | TypeError string
  | ValueError string
  | ZeroDivisionError
  | OverflowError
  | IndexError
  | NotANumber

datatype pyval =
    PFloat real
  | PInt int
  | PBool bool
  | PStr string
  | PDict "(string \<times> pyval) list"
  | PNonFinite

type_synonym dict = "string \<rightharpoonup> pyval"

definition bind_err :: "error + 'a \<Rightarrow> ('a \<Rightarrow> error + 'b) \<Rightarrow> error + 'b" where
  "bind_err m f = (case m of Inl e \<Rightarrow> Inl e | Inr x \<Rightarrow> f x)"

text \<open>Reading an attribute as a number: a missing attribute raises AttributeError, a value
  that does not take part in float arithmetic raises TypeError. \<open>PNonFinite\<close> stands for a
  float that is an infinity or nan; the one attribute that can hold it is \<^verbatim>\<open>t0\<close>, whose
  one numeric use is \<^verbatim>\<open>int(self.t0 * self.sampling_rate)\<close>, which raises on it.\<close>

definition getattr_num :: "dict \<Rightarrow> string \<Rightarrow> error + real" where
  "getattr_num a key =
     (case a key of
        None \<Rightarrow> Inl (AttributeError key)
      | Some (PFloat r) \<Rightarrow> Inr r
      | Some (PInt i) \<Rightarrow> Inr (of_int i)
      | Some (PBool b) \<Rightarrow> Inr (of_bool b)
      | Some (PStr _) \<Rightarrow> Inl (TypeError key)
      | Some (PDict _) \<Rightarrow> Inl (TypeError key)
      | Some PNonFinite \<Rightarrow> Inl OverflowError)"

text \<open>Python's \<^verbatim>\<open>/\<close> on floats raises on a zero divisor; \<^verbatim>\<open>int()\<close> truncates
  towards zero.\<close>

definition py_div :: "real \<Rightarrow> real \<Rightarrow> error + real" where
  "py_div a b = (if b = 0 then Inl ZeroDivisionError else Inr (a / b))"

definition py_int :: "real \<Rightarrow> int" where
  "py_int x = (if 0 \<le> x then \<lfloor>x\<rfloor> else \<lceil>x\<rceil>)"

definition PI2 :: real where
  "PI2 = 2 * pi"

text \<open>\<^verbatim>\<open>np.mod(a, m)\<close>: the remainder has the sign of the divisor. This is the exact
  remainder of the reals. The source takes it of the double \<^verbatim>\<open>np.pi * p / 180\<close>, whose
  rounding differs from one \<open>p\<close> to \<open>p + 360\<close>, so its normalized phases for the two can
  differ in the last bits where the ones here are equal.\<close>

definition np_mod :: "real \<Rightarrow> real \<Rightarrow> real" where
  "np_mod a m = a - m * of_int \<lfloor>a / m\<rfloor>"

text \<open>\<^verbatim>\<open>np.arctan(np.divide(a, b))\<close> with the divide warning switched off: a zero divisor
  gives an infinity, whose arctangent is \<open>\<plusminus>\<pi>/2\<close>; \<open>0/0\<close> is nan.\<close>

definition np_arctan_divide :: "real \<Rightarrow> real \<Rightarrow> real option" where
  "np_arctan_divide a b =
     (if b = 0 then (if 0 < a then Some (pi / 2) else if a < 0 then Some (- (pi / 2)) else None)
      else Some (arctan (a / b)))"

text \<open>\<^verbatim>\<open>np.linspace(0, stop, num=n)\<close>: a negative \<open>n\<close> raises ValueError.\<close>

definition np_linspace :: "real \<Rightarrow> int \<Rightarrow> error + real list" where
  "np_linspace stop n =
     (if n < 0 then Inl (ValueError ''Number of samples must be non-negative'')
      else if n = 1 then Inr [0]
      else Inr (map (\<lambda>i. real i * (stop / real (nat n - 1))) [0..<nat n]))"

text \<open>\<^verbatim>\<open>np.arange(n) / rate\<close>; a negative \<open>n\<close> gives the empty array.\<close>

definition np_arange_div :: "int \<Rightarrow> real \<Rightarrow> real list" where
  "np_arange_div n rate = map (\<lambda>i. real i / rate) [0..<nat n]"

text \<open>A Python slice \<^verbatim>\<open>xs[a:b]\<close> with step 1: negative bounds count from the end and both
  bounds are clipped to the array.\<close>

definition py_slice :: "'a list \<Rightarrow> int \<Rightarrow> int \<Rightarrow> 'a list" where
  "py_slice xs a b =
     (let n = int (length xs);
          lo = (if a < 0 then max (a + n) 0 else min a n);
          hi = (if b < 0 then max (b + n) 0 else min b n)
      in take (nat (hi - lo)) (drop (nat lo) xs))"

text \<open>\<^verbatim>\<open>xs[0::k]\<close> for a positive step \<open>k\<close>: the first entry, then every \<open>k\<close>-th.\<close>

fun every_nth :: "nat \<Rightarrow> 'a list \<Rightarrow> 'a list" where
  "every_nth k [] = []"
| "every_nth k (x # xs) = x # every_nth k (drop (k - 1) xs)"

section \<open>Dictionaries on the heap\<close>

text \<open>
  The three configuration dictionaries are objects shared by reference, and the default
  arguments \<^verbatim>\<open>params={}\<close>, \<^verbatim>\<open>can_params={}\<close>, \<^verbatim>\<open>fit_params={}\<close> of
  \<^verbatim>\<open>create_parameters\<close> are three dictionaries created once, when the class body is
  evaluated. The heap maps a reference to the dictionary stored there.
\<close>

type_synonym ref = nat

record heap =
  cells :: "ref \<Rightarrow> dict"
  next_ref :: ref

definition dflt_params :: ref where "dflt_params = 0"
definition dflt_can_params :: ref where "dflt_can_params = 1"
definition dflt_fit_params :: ref where "dflt_fit_params = 2"

definition heap0 :: heap where
  "heap0 = \<lparr>cells = (\<lambda>_. Map.empty), next_ref = 3\<rparr>"

definition new_dict :: "dict \<Rightarrow> heap \<Rightarrow> ref \<times> heap" where
  "new_dict d h = (next_ref h, \<lparr>cells = (cells h)(next_ref h := d), next_ref = Suc (next_ref h)\<rparr>)"

definition dict_update :: "ref \<Rightarrow> ref \<Rightarrow> heap \<Rightarrow> heap" where
  "dict_update dst src h = h\<lparr>cells := (cells h)(dst := cells h dst ++ cells h src)\<rparr>"

section \<open>The simulator instance\<close>

text \<open>
  \<open>attrs\<close> is the part of the instance's \<^verbatim>\<open>__dict__\<close> that holds scalars: what
  \<^verbatim>\<open>setattr\<close> copies from the configuration dictionaries, and the derived constants.
  It is what \<^verbatim>\<open>hasattr(self, key)\<close> and \<^verbatim>\<open>self.__dict__[key]\<close> read for the keys of
  the default tables (none of which names a method or one of the fields below). The
  arrays and the three parameter bundles are fields; a field that the source has not
  assigned yet is \<open>None\<close>.
\<close>

datatype infodict = Infodict

record cantilever =
  attrs :: dict
  t_Z :: "real list"
  freq_Z :: "real list"
  parameters :: ref
  can_params :: ref
  fit_params :: ref
  t :: "real list option"
  Z0 :: "real list option"
  Z :: "real list option"
  infodict :: "infodict option"

section \<open>Parameter consolidation: \<^verbatim>\<open>create_parameters\<close> and \<^verbatim>\<open>analyze\<close>\<close>

definition default_parameters :: "(string \<times> pyval) list" where
  "default_parameters =
     [(''bandpass_filter'', PFloat 1),
      (''drive_freq'', PInt 277261),
      (''filter_bandwidth'', PFloat 10000),
      (''n_taps'', PInt 799),
      (''roi'', PFloat (3 / 10000)),
      (''sampling_rate'', PFloat 10000000),
      (''total_time'', PFloat (2 / 1000)),
      (''trigger'', PFloat (5 / 10000)),
      (''window'', PStr ''blackman''),
      (''wavelet_analysis'', PInt 0),
      (''fft_params'', PDict [])]"

definition default_can_params :: "(string \<times> pyval) list" where
  "default_can_params =
     [(''amp_invols'', PFloat (552 / 10000000000)),
      (''def_invols'', PFloat (506 / 10000000000)),
      (''k'', PFloat (262 / 10)),
      (''q_factor'', PInt 432)]"

definition default_fit_params :: "(string \<times> pyval) list" where
  "default_fit_params =
     [(''filter_amplitude'', PBool True),
      (''method'', PStr ''hilbert''),
      (''fit'', PBool True),
      (''fit_form'', PStr ''product'')]"

text \<open>One pass of \<^verbatim>\<open>for key, val in defaults.items(): if key not in d: ...\<close>: a key the
  dictionary lacks is filled from the instance attribute when there is one, else from the
  default.\<close>

definition fill_key :: "dict \<Rightarrow> string \<times> pyval \<Rightarrow> dict \<Rightarrow> dict" where
  "fill_key a kv d =
     (case d (fst kv) of
        Some _ \<Rightarrow> d
      | None \<Rightarrow> (case a (fst kv) of Some v \<Rightarrow> d(fst kv \<mapsto> v) | None \<Rightarrow> d(fst kv \<mapsto> snd kv)))"

definition fill_defaults :: "dict \<Rightarrow> (string \<times> pyval) list \<Rightarrow> dict \<Rightarrow> dict" where
  "fill_defaults a defaults d = fold (fill_key a) defaults d"

definition fill_at :: "dict \<Rightarrow> (string \<times> pyval) list \<Rightarrow> ref \<Rightarrow> heap \<Rightarrow> heap" where
  "fill_at a defaults r h = h\<lparr>cells := (cells h)(r := fill_defaults a defaults (cells h r))\<rparr>"

text \<open>\<^verbatim>\<open>create_parameters(self, params, can_params, fit_params)\<close>: the three arguments are
  references; the dictionaries they point to are filled in place and then merged into the
  instance's bundles. A caller that leaves an argument out passes \<open>dflt_params\<close>,
  \<open>dflt_can_params\<close> or \<open>dflt_fit_params\<close>.\<close>

definition create_parameters :: "cantilever \<Rightarrow> ref \<Rightarrow> ref \<Rightarrow> ref \<Rightarrow> heap \<Rightarrow> heap" where
  "create_parameters self params canp fitp h =
     (let h1 = fill_at (attrs self) default_parameters params h;
          h2 = fill_at (attrs self) default_can_params canp h1;
          h3 = fill_at (attrs self) default_fit_params fitp h2;
          h4 = dict_update (parameters self) params h3;
          h5 = dict_update (can_params self) canp h4
      in dict_update (fit_params self) fitp h5)"

definition param_keys :: "string list" where
  "param_keys = [''bandpass_filter'', ''drive_freq'', ''filter_bandwidth'', ''n_taps'',
     ''roi'', ''sampling_rate'', ''total_time'', ''trigger'', ''window'', ''wavelet_analysis'',
     ''fft_params'']"

definition can_param_keys :: "string list" where
  "can_param_keys = [''amp_invols'', ''def_invols'', ''k'', ''q_factor'']"

definition fit_param_keys :: "string list" where
  "fit_param_keys = [''filter_amplitude'', ''method'', ''fit'', ''fit_form'']"

text \<open>The routing loop of \<^verbatim>\<open>analyze\<close> over the keyword arguments, on the three local
  dictionaries.\<close>

fun route_kwargs :: "(string \<times> pyval) list \<Rightarrow> dict \<times> dict \<times> dict \<Rightarrow> dict \<times> dict \<times> dict" where
  "route_kwargs [] acc = acc"
| "route_kwargs ((k, v) # kws) (p, c, f) =
     (if k \<in> set param_keys then route_kwargs kws (p(k \<mapsto> v), c, f)
      else if k \<in> set can_param_keys then route_kwargs kws (p, c(k \<mapsto> v), f)
      else if k \<in> set fit_param_keys then route_kwargs kws (p, c, f(k \<mapsto> v))
      else route_kwargs kws (p, c, f))"

text \<open>\<^verbatim>\<open>analyze(self, plot, **kwargs)\<close> up to the hand-off: three fresh dictionaries, the
  routing loop, \<^verbatim>\<open>create_parameters\<close>. Building the \<^verbatim>\<open>Pixel\<close> from the bundles, its
  \<^verbatim>\<open>analyze()\<close> and \<^verbatim>\<open>plot()\<close> belong to the external analyzer.\<close>

definition analyze :: "cantilever \<Rightarrow> (string \<times> pyval) list \<Rightarrow> heap \<Rightarrow> heap" where
  "analyze self kwargs h =
     (case route_kwargs kwargs (Map.empty, Map.empty, Map.empty) of
        (p, c, f) \<Rightarrow>
          (case new_dict p h of (pr, h1) \<Rightarrow>
           case new_dict c h1 of (cr, h2) \<Rightarrow>
           case new_dict f h2 of (fr, h3) \<Rightarrow>
             create_parameters self pr cr fr h3))"

text \<open>The resolution order as the specification words it, to compare the code with: the
  explicit value passed by the caller, else the simulator's own value if present, else the
  hard default.\<close>

definition spec_resolve :: "dict \<Rightarrow> dict \<Rightarrow> (string \<times> pyval) list \<Rightarrow> string \<Rightarrow> pyval option" where
  "spec_resolve override attributes defaults k =
     (case override k of
        Some v \<Rightarrow> Some v
      | None \<Rightarrow> (case attributes k of Some v \<Rightarrow> Some v | None \<Rightarrow> map_of defaults k))"

section \<open>Construction: \<^verbatim>\<open>Cantilever.__init__\<close>\<close>

text \<open>The cantilever block (source lines 107 to 125): the attributes copied from
  \<^verbatim>\<open>can_params\<close> and the constants derived from them. The advisory print when the
  resonance and drive frequencies differ has no effect on the state. The square root and
  the products are those of the reals: the \<open>f0\<close> stored here is the exact value, and the
  double the source stores differs from it, and from \<open>amp \<cdot> 2 \<cdot> beta \<cdot> wd\<close> at resonance, by
  rounding.\<close>

definition init_cantilever :: "dict \<Rightarrow> error + dict" where
  "init_cantilever can =
     bind_err (getattr_num can ''res_freq'') (\<lambda>res_freq.
     bind_err (getattr_num can ''drive_freq'') (\<lambda>drive_freq.
     let w0 = PI2 * res_freq; wd = PI2 * drive_freq in
     bind_err (getattr_num can ''q_factor'') (\<lambda>q_factor.
     bind_err (py_div w0 (2 * q_factor)) (\<lambda>beta.
     bind_err (getattr_num can ''k'') (\<lambda>k.
     bind_err (py_div k (w0 ^ 2)) (\<lambda>mass.
     bind_err (getattr_num can ''soft_amp'') (\<lambda>soft_amp.
     bind_err (getattr_num can ''amp_invols'') (\<lambda>amp_invols.
     let amp = soft_amp * amp_invols;
         f0 = amp * sqrt ((w0 ^ 2 - wd ^ 2) ^ 2 + 4 * beta ^ 2 * wd ^ 2)
     in case np_arctan_divide (2 * wd * beta) (w0 ^ 2 - wd ^ 2) of
          None \<Rightarrow> Inl NotANumber
        | Some phi \<Rightarrow>
            Inr (can(''w0'' \<mapsto> PFloat w0, ''wd'' \<mapsto> PFloat wd, ''beta'' \<mapsto> PFloat beta,
                     ''mass'' \<mapsto> PFloat mass, ''amp'' \<mapsto> PFloat amp, ''f0'' \<mapsto> PFloat f0,
                     ''delta'' \<mapsto> PFloat \<bar>phi\<bar>))))))))))"

text \<open>The force block (lines 128 to 132) and the simulation block (lines 135 to 143): each
  copies its dictionary over the attributes first, so a key of the dictionary replaces an
  attribute of the same name.\<close>

definition init_force :: "dict \<Rightarrow> dict \<Rightarrow> error + dict" where
  "init_force a force =
     (let a1 = a ++ force in
      bind_err (getattr_num a1 ''delta_freq'') (\<lambda>delta_freq.
      bind_err (getattr_num a1 ''es_force'') (\<lambda>es_force.
      bind_err (getattr_num a1 ''mass'') (\<lambda>mass.
      bind_err (py_div es_force mass) (\<lambda>fe.
      Inr (a1(''delta_w'' \<mapsto> PFloat (PI2 * delta_freq), ''fe'' \<mapsto> PFloat fe)))))))"

definition init_sim :: "dict \<Rightarrow> dict \<Rightarrow> error + dict \<times> real list \<times> real list" where
  "init_sim a sim =
     (let a1 = a ++ sim in
      bind_err (getattr_num a1 ''total_time'') (\<lambda>total_time.
      bind_err (getattr_num a1 ''sampling_rate'') (\<lambda>sampling_rate.
      let num_pts = py_int (total_time * sampling_rate) in
      bind_err (np_linspace total_time num_pts) (\<lambda>tz.
      bind_err (np_linspace (of_int (py_int (sampling_rate / 2)))
                  (py_int (of_int num_pts / 2 + 1))) (\<lambda>fz.
      Inr (a1, tz, fz))))))"

text \<open>\<^verbatim>\<open>__init__(self, can_params, force_params, sim_params)\<close>. The three arguments are
  references to the caller's dictionaries. Lines 146 to 150: \<^verbatim>\<open>self.fit_params\<close> is a
  new dictionary, \<^verbatim>\<open>self.parameters\<close> is the caller's \<^verbatim>\<open>force_params\<close> object, updated
  in place with \<^verbatim>\<open>sim_params\<close>, \<^verbatim>\<open>self.can_params\<close> is the caller's \<^verbatim>\<open>can_params\<close>
  object, and \<^verbatim>\<open>create_parameters\<close> runs on the two with the third argument left out.
  An exception leaves the heap as it was: every write to it comes after the last place
  that can raise.\<close>

definition Cantilever_init :: "ref \<Rightarrow> ref \<Rightarrow> ref \<Rightarrow> heap \<Rightarrow> error + cantilever \<times> heap" where
  "Cantilever_init canr forcer simr h =
     bind_err (init_cantilever (cells h canr)) (\<lambda>a1.
     bind_err (init_force a1 (cells h forcer)) (\<lambda>a2.
     bind_err (init_sim a2 (cells h simr)) (\<lambda>(a3, tz, fz).
     case new_dict Map.empty h of (fitr, h1) \<Rightarrow>
       let h2 = dict_update forcer simr h1;
           self = \<lparr>attrs = a3, t_Z = tz, freq_Z = fz,
                   parameters = forcer, can_params = canr, fit_params = fitr,
                   t = None, Z0 = None, Z = None, infodict = None\<rparr>
       in Inr (self, create_parameters self forcer canr dflt_fit_params h2))))"

section \<open>Methods on the instance: state and exceptions\<close>

text \<open>A method takes the instance and returns its result, or the exception it raised,
  together with the instance as the method left it.\<close>

type_synonym 'a meth = "cantilever \<Rightarrow> (error + 'a) \<times> cantilever"

definition bnd :: "'a meth \<Rightarrow> ('a \<Rightarrow> 'b meth) \<Rightarrow> 'b meth" where
  "bnd m f s = (case m s of (Inl e, s') \<Rightarrow> (Inl e, s') | (Inr x, s') \<Rightarrow> f x s')"

definition ret :: "'a \<Rightarrow> 'a meth" where
  "ret x s = (Inr x, s)"

definition raise :: "error \<Rightarrow> 'a meth" where
  "raise e s = (Inl e, s)"

definition lift :: "error + 'a \<Rightarrow> 'a meth" where
  "lift r s = (r, s)"

definition self_num :: "string \<Rightarrow> real meth" where
  "self_num key s = (getattr_num (attrs s) key, s)"

definition set_attr :: "string \<Rightarrow> pyval \<Rightarrow> unit meth" where
  "set_attr key v s = (Inr (), s\<lparr>attrs := (attrs s)(key \<mapsto> v)\<rparr>)"

definition modify :: "(cantilever \<Rightarrow> cantilever) \<Rightarrow> unit meth" where
  "modify f s = (Inr (), f s)"

section \<open>The phase trigger solver: \<^verbatim>\<open>set_conditions\<close>\<close>

text \<open>\<^verbatim>\<open>phase_diff / self.wd\<close> divides a numpy float: a zero \<open>wd\<close> gives an infinity or nan
  instead of raising, stored as \<open>PNonFinite\<close>. The entries of \<^verbatim>\<open>self.t\<close> are written with
  the division of the reals; at a zero sampling rate numpy fills the array with infinities
  and nan, which changes no length.\<close>

definition set_conditions :: "real \<Rightarrow> unit meth" where
  "set_conditions trigger_phase =
     (let tp = np_mod (pi * trigger_phase / 180) PI2 in
      bnd (set_attr ''trigger_phase'' (PFloat tp)) (\<lambda>_.
      bnd (self_num ''total_time'') (\<lambda>total_time.
      bnd (self_num ''sampling_rate'') (\<lambda>sampling_rate.
      let n_points = py_int (total_time * sampling_rate) in
      bnd (set_attr ''n_points'' (PInt n_points)) (\<lambda>_.
      bnd (self_num ''res_freq'') (\<lambda>res_freq.
      bnd (lift (py_div (2 * sampling_rate) res_freq)) (\<lambda>cyc.
      let cycle_points = py_int cyc; n_points_sim = cycle_points + n_points in
      bnd (set_attr ''n_points_sim'' (PInt n_points_sim)) (\<lambda>_.
      bnd (modify (\<lambda>s. s\<lparr>t := Some (np_arange_div n_points_sim sampling_rate)\<rparr>)) (\<lambda>_.
      bnd (self_num ''wd'') (\<lambda>wd.
      bnd (self_num ''trigger'') (\<lambda>trigger.
      bnd (self_num ''delta'') (\<lambda>delta.
      let current_phase = np_mod (wd * trigger - delta) PI2;
          phase_diff = np_mod (tp - current_phase) PI2
      in
      bnd (set_attr ''t0''
             (if wd = 0 then PNonFinite else PFloat (trigger + phase_diff / wd))) (\<lambda>_.
      bnd (self_num ''amp'') (\<lambda>amp.
      let z0 = amp * sin (- delta); v0 = amp * wd * cos (- delta) in
      modify (\<lambda>s. s\<lparr>Z0 := Some [z0, v0]\<rparr>)))))))))))))))"

section \<open>The equation of motion and the integrator\<close>

definition force :: "real \<Rightarrow> real \<Rightarrow> real \<Rightarrow> real" where
  "force f0 wd tm = f0 * sin (wd * tm)"

definition omega :: "real \<Rightarrow> real \<Rightarrow> real" where
  "omega w0 tm = w0"

definition dZ_dt :: "real \<Rightarrow> real \<Rightarrow> real \<Rightarrow> real \<Rightarrow> real \<times> real \<Rightarrow> real \<Rightarrow> real \<times> real" where
  "dZ_dt f0 wd w0 q_factor zv tm =
     (snd zv, force f0 wd tm - omega w0 tm * snd zv / q_factor - (omega w0 tm) ^ 2 * fst zv)"

text \<open>\<^verbatim>\<open>scipy.integrate.odeint(func, y0, t, full_output=True)\<close> returns one row per entry of
  \<open>t\<close>, the numerical solution at that time, and the solver's diagnostics. The numerical
  solution is a parameter \<open>flow\<close> of the model; the diagnostics are opaque.\<close>

type_synonym flow = "(real \<times> real \<Rightarrow> real \<Rightarrow> real \<times> real) \<Rightarrow> real \<times> real \<Rightarrow> real \<Rightarrow> real \<times> real"

definition odeint :: "flow \<Rightarrow> (real \<times> real \<Rightarrow> real \<Rightarrow> real \<times> real) \<Rightarrow> real \<times> real \<Rightarrow> real list
    \<Rightarrow> (real \<times> real) list \<times> infodict" where
  "odeint flow func y0 ts = (map (flow func y0) ts, Infodict)"

section \<open>\<^verbatim>\<open>simulate\<close>\<close>

text \<open>What a caller can pass as \<^verbatim>\<open>Z0\<close>: nothing, a list, a one-dimensional numpy array,
  a tuple, or a number. The truth value of a numpy array is that of its one element, is
  false for an empty array (with a deprecation warning in the numpy of the source's time),
  and raises ValueError for two elements or more.\<close>

datatype z0_arg =
    NoneArg
  | ListArg "real list"
  | ArrayArg "real list"
  | TupleArg "real list"
  | ScalarArg real

definition ambiguous_truth :: string where
  "ambiguous_truth = ''The truth value of an array with more than one element is ambiguous''"

fun truthy :: "z0_arg \<Rightarrow> error + bool" where
  "truthy NoneArg = Inr False"
| "truthy (ListArg xs) = Inr (xs \<noteq> [])"
| "truthy (TupleArg xs) = Inr (xs \<noteq> [])"
| "truthy (ScalarArg r) = Inr (r \<noteq> 0)"
| "truthy (ArrayArg []) = Inr False"
| "truthy (ArrayArg [x]) = Inr (x \<noteq> 0)"
| "truthy (ArrayArg (x # y # ys)) = Inl (ValueError ambiguous_truth)"

fun is_array_or_list :: "z0_arg \<Rightarrow> bool" where
  "is_array_or_list (ListArg _) = True"
| "is_array_or_list (ArrayArg _) = True"
| "is_array_or_list _ = False"

fun elements :: "z0_arg \<Rightarrow> real list" where
  "elements (ListArg xs) = xs"
| "elements (ArrayArg xs) = xs"
| "elements (TupleArg xs) = xs"
| "elements _ = []"

definition self_attr :: "string \<Rightarrow> pyval meth" where
  "self_attr key s =
     (case attrs s key of None \<Rightarrow> (Inl (AttributeError key), s) | Some v \<Rightarrow> (Inr v, s))"

text \<open>An attribute used as a slice bound must be an integer.\<close>

definition self_index :: "string \<Rightarrow> int meth" where
  "self_index key s =
     (case attrs s key of
        None \<Rightarrow> (Inl (AttributeError key), s)
      | Some (PInt i) \<Rightarrow> (Inr i, s)
      | Some (PBool b) \<Rightarrow> (Inr (of_bool b), s)
      | Some _ \<Rightarrow> (Inl (TypeError key), s))"

text \<open>Lines 278 to 288: the branch taken when \<^verbatim>\<open>Z0\<close> is truthy.\<close>

definition explicit_conditions :: "z0_arg \<Rightarrow> unit meth" where
  "explicit_conditions z =
     (if \<not> is_array_or_list z then raise (TypeError ''Must be 2-size array or list'')
      else if length (elements z) \<noteq> 2 then raise (ValueError ''Must specify exactly [z0, v0]'')
      else
        bnd (self_num ''total_time'') (\<lambda>total_time.
        bnd (self_num ''sampling_rate'') (\<lambda>sampling_rate.
        let n_points = py_int (total_time * sampling_rate) in
        bnd (set_attr ''n_points'' (PInt n_points)) (\<lambda>_.
        bnd (modify (\<lambda>s. s\<lparr>t := Some (np_arange_div n_points sampling_rate)\<rparr>)) (\<lambda>_.
        bnd (self_attr ''trigger'') (\<lambda>trg.
        bnd (set_attr ''t0'' trg) (\<lambda>_.
        modify (\<lambda>s. s\<lparr>Z0 := Some (elements z)\<rparr>))))))))"

text \<open>Line 293: the integration. \<^verbatim>\<open>dZ_dt\<close> reads \<^verbatim>\<open>t0\<close>, \<^verbatim>\<open>tau\<close>, \<^verbatim>\<open>f0\<close>, \<^verbatim>\<open>wd\<close>,
  \<^verbatim>\<open>w0\<close> and \<^verbatim>\<open>q_factor\<close> from the instance when the solver first calls it. The result
  is the array of rows.\<close>

definition integrate :: "flow \<Rightarrow> ((real \<times> real) list \<times> infodict) meth" where
  "integrate flow s =
     (case (Z0 s, t s) of
        (Some [z0, v0], Some ts) \<Rightarrow>
          (bnd (self_attr ''t0'') (\<lambda>_.
           bnd (self_attr ''tau'') (\<lambda>_.
           bnd (self_num ''f0'') (\<lambda>f0.
           bnd (self_num ''wd'') (\<lambda>wd.
           bnd (self_num ''w0'') (\<lambda>w0.
           bnd (self_num ''q_factor'') (\<lambda>q_factor.
           ret (odeint flow (dZ_dt f0 wd w0 q_factor) (z0, v0) ts)))))))) s
      | _ \<Rightarrow> (Inl (ValueError ''Initial condition y0 must be one-dimensional of size 2''), s))"

text \<open>\<^verbatim>\<open>simulate(self, trigger_phase, Z0)\<close>; the result is the trimmed waveform and the
  diagnostics.\<close>

definition simulate :: "flow \<Rightarrow> real \<Rightarrow> z0_arg \<Rightarrow> (real list \<times> infodict) meth" where
  "simulate flow trigger_phase z =
     bnd (lift (truthy z)) (\<lambda>given.
     bnd (if given then explicit_conditions z else set_conditions trigger_phase) (\<lambda>_.
     bnd (integrate flow) (\<lambda>(rows, info).
     bnd (self_num ''t0'') (\<lambda>t0.
     bnd (self_num ''sampling_rate'') (\<lambda>sampling_rate.
     let t0_idx = py_int (t0 * sampling_rate) in
     bnd (self_num ''trigger'') (\<lambda>trigger.
     let tidx = py_int (trigger * sampling_rate) in
     bnd (self_index ''n_points'') (\<lambda>n_points.
     let Z_cut = map fst (py_slice rows (t0_idx - tidx) (t0_idx + n_points - tidx)) in
     bnd (modify (\<lambda>s. s\<lparr>infodict := Some info, Z := Some Z_cut\<rparr>)) (\<lambda>_.
     ret (Z_cut, info)))))))))"

section \<open>\<^verbatim>\<open>downsample\<close>\<close>

text \<open>\<^verbatim>\<open>Z[0::step]\<close>: a zero step raises; a negative step walks down from index 0 and so
  keeps at most the first sample.\<close>

definition stride_from_0 :: "int \<Rightarrow> 'a list \<Rightarrow> error + 'a list" where
  "stride_from_0 step xs =
     (if step = 0 then Inl (ValueError ''slice step cannot be zero'')
      else if step < 0 then Inr (take 1 xs)
      else Inr (every_nth (nat step) xs))"

text \<open>\<^verbatim>\<open>a.reshape(n, 1)\<close>: the array must hold exactly \<open>n\<close> entries; \<open>n = -1\<close> asks numpy
  to work the length out.\<close>

definition reshape_column :: "int \<Rightarrow> 'a list \<Rightarrow> error + 'a list" where
  "reshape_column n xs =
     (if n = - 1 \<or> n = int (length xs) then Inr xs
      else Inl (ValueError ''cannot reshape array''))"

text \<open>The division by \<^verbatim>\<open>def_invols\<close> is numpy's: a zero divisor gives infinities and nan
  without raising, and the reals' division stands for it.\<close>

definition downsample :: "real \<Rightarrow> unit meth" where
  "downsample target_rate =
     bnd (self_num ''sampling_rate'') (\<lambda>sampling_rate.
     if target_rate > sampling_rate
     then raise (ValueError ''Target should be less than the initial sampling rate'')
     else
       bnd (lift (py_div sampling_rate target_rate)) (\<lambda>ratio.
       let step = py_int ratio in
       bnd (self_num ''total_time'') (\<lambda>total_time.
       let n_points = py_int (total_time * target_rate) in
       (\<lambda>s. case Z s of
               None \<Rightarrow> (Inl (AttributeError ''Z''), s)
             | Some zs \<Rightarrow>
                 (bnd (lift (stride_from_0 step zs)) (\<lambda>picked.
                  bnd (lift (reshape_column n_points picked)) (\<lambda>col.
                  bnd (self_num ''def_invols'') (\<lambda>def_invols.
                  modify (\<lambda>s. s\<lparr>Z := Some (map (\<lambda>x. x / def_invols) col)\<rparr>))))) s))))"

section \<open>The per-line fan-out: \<^verbatim>\<open>line.py\<close>\<close>

text \<open>A two-dimensional numpy array: its number of columns and its rows. The per-pixel
  analyzer \<^verbatim>\<open>pixel.Pixel(pix, params).get_tfp()\<close> is not part of these sources; it is
  the parameter \<open>pixel_get_tfp\<close>, which returns the pair (tFP, shift).\<close>

record array2 =
  ncols :: nat
  rows :: "real list list"

record 'p line =
  signal_array :: array2
  n_pixels :: int
  params :: 'p
  tfp :: "real list"
  shift :: "real list"







section \<open>A concrete configuration\<close>

text \<open>A cantilever driven at resonance, \<open>res_freq = drive_freq = 1\<close> Hz with
  \<open>k = q_factor = 1\<close>, sampled at 2 Hz for 7/8 s with the trigger at 1/4 s. The three
  dictionaries sit on the heap at references 3, 4 and 5.\<close>

definition ex_can :: dict where
  "ex_can = [''amp_invols'' \<mapsto> PFloat 1, ''def_invols'' \<mapsto> PFloat 1, ''soft_amp'' \<mapsto> PFloat 1,
     ''drive_freq'' \<mapsto> PFloat 1, ''res_freq'' \<mapsto> PFloat 1, ''k'' \<mapsto> PFloat 1,
     ''q_factor'' \<mapsto> PFloat 1]"

definition ex_force :: dict where
  "ex_force = [''es_force'' \<mapsto> PFloat 0, ''delta_freq'' \<mapsto> PFloat 0, ''tau'' \<mapsto> PFloat 1]"

definition ex_sim :: dict where
  "ex_sim = [''trigger'' \<mapsto> PFloat (1 / 4), ''total_time'' \<mapsto> PFloat (7 / 8),
     ''sampling_rate'' \<mapsto> PInt 2]"

definition ex_heap :: heap where
  "ex_heap = \<lparr>cells = (cells heap0)(3 := ex_can, 4 := ex_force, 5 := ex_sim), next_ref = 6\<rparr>"

text \<open>The instance a successful construction returns; an instance without attributes stands
  for a failed one.\<close>

definition no_instance :: cantilever where
  "no_instance = \<lparr>attrs = Map.empty, t_Z = [], freq_Z = [], parameters = 0, can_params = 0,
     fit_params = 0, t = None, Z0 = None, Z = None, infodict = None\<rparr>"

definition instance_of :: "error + cantilever \<times> heap \<Rightarrow> cantilever" where
  "instance_of r = (case r of Inr (s, h) \<Rightarrow> s | Inl e \<Rightarrow> no_instance)"

definition ex_self :: cantilever where
  "ex_self = instance_of (Cantilever_init 3 4 5 ex_heap)"

text \<open>The heap a construction leaves: a failed one leaves it as it was.\<close>

definition heap_after :: "heap \<Rightarrow> error + cantilever \<times> heap \<Rightarrow> heap" where
  "heap_after h r = (case r of Inr (s, h') \<Rightarrow> h' | Inl e \<Rightarrow> h)"

definition ex_built :: heap where
  "ex_built = heap_after ex_heap (Cantilever_init 3 4 5 ex_heap)"

text \<open>A second cantilever, with \<open>res_freq = drive_freq = 3\<close> Hz, built after the first from
  three more dictionaries at references 7, 8 and 9.\<close>

definition ex2_can :: dict where
  "ex2_can = ex_can(''drive_freq'' \<mapsto> PFloat 3, ''res_freq'' \<mapsto> PFloat 3)"

definition ex_heap2 :: heap where
  "ex_heap2 = \<lparr>cells = (cells ex_built)(7 := ex2_can, 8 := ex_force, 9 := ex_sim), next_ref = 10\<rparr>"

definition ex_other :: cantilever where
  "ex_other = instance_of (Cantilever_init 7 8 9 ex_heap2)"

definition ex_built2 :: heap where
  "ex_built2 = heap_after ex_heap2 (Cantilever_init 7 8 9 ex_heap2)"

text \<open>A cantilever driven far below resonance: \<open>res_freq = 4\<close> Hz, \<open>drive_freq = 1/2\<close> Hz,
  \<open>q_factor = 8/63\<close> (which makes the phase lag \<open>\<pi>/4\<close>), sampled at 8 Hz.\<close>

definition ex3_can :: dict where
  "ex3_can = [''amp_invols'' \<mapsto> PFloat 1, ''def_invols'' \<mapsto> PFloat 1, ''soft_amp'' \<mapsto> PFloat 1,
     ''drive_freq'' \<mapsto> PFloat (1 / 2), ''res_freq'' \<mapsto> PFloat 4, ''k'' \<mapsto> PFloat 1,
     ''q_factor'' \<mapsto> PFloat (8 / 63)]"

definition ex3_sim :: dict where
  "ex3_sim = [''trigger'' \<mapsto> PFloat (1 / 4), ''total_time'' \<mapsto> PFloat (7 / 8),
     ''sampling_rate'' \<mapsto> PInt 8]"

definition ex_heap3 :: heap where
  "ex_heap3 = \<lparr>cells = (cells heap0)(3 := ex3_can, 4 := ex_force, 5 := ex3_sim), next_ref = 6\<rparr>"

definition ex_slow :: cantilever where
  "ex_slow = instance_of (Cantilever_init 3 4 5 ex_heap3)"

text \<open>A numerical solution for the examples: the state stays at its initial value.\<close>

definition const_flow :: flow where
  "const_flow func y0 tm = y0"

text \<open>The example instance after \<^verbatim>\<open>simulate(180)\<close>.\<close>

definition ex_simulated :: cantilever where
  "ex_simulated = snd (simulate const_flow 180 NoneArg ex_self)"



section \<open>Basic facts\<close>

lemma bind_err_Inl [simp]: "bind_err (Inl e) f = Inl e"
  by (simp add: bind_err_def)

lemma bind_err_Inr [simp]: "bind_err (Inr x) f = f x"
  by (simp add: bind_err_def)

lemma bind_err_eq_Inr:
  "bind_err m f = Inr y \<longleftrightarrow> (\<exists>x. m = Inr x \<and> f x = Inr y)"
  by (cases m) simp_all

lemma bnd_Inr [simp]: "m s = (Inr x, s') \<Longrightarrow> bnd m f s = f x s'"
  by (simp add: bnd_def)

lemma bnd_Inl [simp]: "m s = (Inl e, s') \<Longrightarrow> bnd m f s = (Inl e, s')"
  by (simp add: bnd_def)

section \<open>The length of the trimmed waveform\<close>

lemma getattr_num_upd [simp]: "k \<noteq> k' \<Longrightarrow> getattr_num (a(k' \<mapsto> v)) k = getattr_num a k"
  by (simp add: getattr_num_def)

lemma getattr_num_PFloat [simp]: "getattr_num (a(k \<mapsto> PFloat v)) k = Inr v"
  by (simp add: getattr_num_def)


lemma py_slice_length:
  assumes "0 \<le> a" "0 \<le> n" "a + n \<le> int (length xs)"
  shows "length (py_slice xs a (a + n)) = nat n"
proof -
  have "a + n \<ge> 0" using assms by simp
  moreover have "min (a + n) (int (length xs)) = a + n" using assms by simp
  moreover have "min a (int (length xs)) = a" using assms by simp
  moreover have "nat n \<le> length xs - nat a" using assms by linarith
  ultimately show ?thesis using assms by (simp add: py_slice_def Let_def)
qed

lemma py_slice_length_le:
  assumes "0 \<le> a" "0 \<le> n"
  shows "length (py_slice xs a (a + n)) \<le> nat n"
proof -
  let ?N = "int (length xs)"
  let ?hi = "min (a + n) ?N"
  have "length (py_slice xs a (a + n)) \<le> nat (?hi - min a ?N)"
    using assms by (simp add: py_slice_def Let_def)
  moreover have "?hi - min a ?N \<le> n" using assms by (auto simp: min_def)
  ultimately show ?thesis by linarith
qed



lemma self_index_PInt:
  "attrs s key = Some (PInt i) \<Longrightarrow> self_index key s = (Inr i, s)"
  by (simp add: self_index_def)

lemma simulate_no_Z0_run:
  fixes flow :: flow and p :: real
  assumes tt: "getattr_num (attrs s) ''total_time'' = Inr T"
    and sr: "getattr_num (attrs s) ''sampling_rate'' = Inr sr"
    and rf: "getattr_num (attrs s) ''res_freq'' = Inr rf" and rf0: "rf \<noteq> 0"
    and wd: "getattr_num (attrs s) ''wd'' = Inr wd" and wd0: "wd \<noteq> 0"
    and trg: "getattr_num (attrs s) ''trigger'' = Inr trg"
    and dl: "getattr_num (attrs s) ''delta'' = Inr d"
    and amp: "getattr_num (attrs s) ''amp'' = Inr A"
    and tau: "attrs s ''tau'' = Some tauv"
    and f0: "getattr_num (attrs s) ''f0'' = Inr F"
    and w0: "getattr_num (attrs s) ''w0'' = Inr W"
    and q: "getattr_num (attrs s) ''q_factor'' = Inr Q"
  defines "t0 \<equiv> trg + np_mod (np_mod (pi * p / 180) PI2 - np_mod (wd * trg - d) PI2) PI2 / wd"
    and "n \<equiv> py_int (T * sr)"
  defines "sol \<equiv> map (flow (dZ_dt F wd W Q) (A * sin (- d), A * wd * cos (- d)))
                     (np_arange_div (py_int (2 * sr / rf) + n) sr)"
  defines "zs \<equiv> map fst (py_slice sol (py_int (t0 * sr) - py_int (trg * sr))
                             (py_int (t0 * sr) + n - py_int (trg * sr)))"
  shows "\<exists>s'. simulate flow p NoneArg s = (Inr (zs, Infodict), s') \<and> Z s' = Some zs"
  using tt sr rf rf0 wd wd0 trg dl amp tau f0 w0 q
  unfolding zs_def sol_def t0_def n_def
  by (simp add: simulate_def set_conditions_def integrate_def
      bnd_def self_num_def set_attr_def modify_def lift_def ret_def self_attr_def self_index_def
      py_div_def odeint_def np_arange_div_def Let_def)

lemmas ex_defs = Cantilever_init_def ex_heap_def heap0_def ex_can_def ex_force_def ex_sim_def
     init_cantilever_def init_force_def init_sim_def getattr_num_def py_div_def PI2_def
     np_arctan_divide_def py_int_def np_linspace_def new_dict_def Let_def instance_of_def ex_self_def

lemma ex_attrs:
  "getattr_num (attrs ex_self) ''total_time'' = Inr (7 / 8)"
  "getattr_num (attrs ex_self) ''sampling_rate'' = Inr 2"
  "getattr_num (attrs ex_self) ''res_freq'' = Inr 1"
  "getattr_num (attrs ex_self) ''wd'' = Inr (2 * pi)"
  "getattr_num (attrs ex_self) ''trigger'' = Inr (1 / 4)"
  "getattr_num (attrs ex_self) ''delta'' = Inr (pi / 2)"
  "getattr_num (attrs ex_self) ''amp'' = Inr 1"
  "attrs ex_self ''tau'' = Some (PFloat 1)"
  "getattr_num (attrs ex_self) ''f0'' = Inr (sqrt (16 * pi ^ 4))"
  "getattr_num (attrs ex_self) ''w0'' = Inr (2 * pi)"
  "getattr_num (attrs ex_self) ''q_factor'' = Inr 1"
  by (simp_all add: ex_defs)

lemma np_mod_small: "0 \<le> a \<Longrightarrow> a < m \<Longrightarrow> np_mod a m = a"
proof -
  assume "0 \<le> a" "a < m"
  then have "\<lfloor>a / m\<rfloor> = 0" by (simp add: floor_eq_iff)
  then show ?thesis by (simp add: np_mod_def)
qed

lemma ex_t0:
  "1 / 4 + np_mod (np_mod (pi * 180 / 180) PI2 - np_mod (2 * pi * (1 / 4) - pi / 2) PI2) PI2 / (2 * pi)
     = 3 / 4"
proof -
  have 1: "np_mod (pi * 180 / 180) PI2 = pi"
    by (rule trans [OF _ np_mod_small [of pi PI2]]) (simp_all add: PI2_def)
  have 2: "np_mod (2 * pi * (1 / 4) - pi / 2) PI2 = 0"
    by (rule trans [OF _ np_mod_small [of 0 PI2]]) (simp_all add: PI2_def)
  have 3: "np_mod (pi - 0) PI2 = pi"
    by (rule trans [OF _ np_mod_small [of pi PI2]]) (simp_all add: PI2_def)
  show ?thesis unfolding 1 2 3 by simp
qed


lemma ex_simulate_length:
  "map_sum id (length \<circ> fst) (fst (simulate const_flow 180 NoneArg ex_self)) = Inr 1"
proof -
  define sol where "sol = map (const_flow (dZ_dt (sqrt (16 * pi ^ 4)) (2 * pi) (2 * pi) 1)
       (1 * sin (- (pi / 2)), 1 * (2 * pi) * cos (- (pi / 2))))
       (np_arange_div (py_int (2 * 2 / 1) + py_int (7 / 8 * 2)) 2)"
  have len: "length sol = 5" by (simp add: sol_def np_arange_div_def py_int_def)
  have "length (py_slice sol 1 (1 + 1)) = nat 1"
    by (rule py_slice_length) (simp_all add: len)
  then have l1: "length (py_slice sol 1 2) = 1" by simp
  have nz: "(2 * pi :: real) \<noteq> 0" "(1::real) \<noteq> 0" by simp_all
  obtain s' where "simulate const_flow 180 NoneArg ex_self =
      (Inr (map fst (py_slice sol
         (py_int ((1 / 4 + np_mod (np_mod (pi * 180 / 180) PI2 - np_mod (2 * pi * (1 / 4) - pi / 2) PI2) PI2 / (2 * pi)) * 2) - py_int (1 / 4 * 2))
         (py_int ((1 / 4 + np_mod (np_mod (pi * 180 / 180) PI2 - np_mod (2 * pi * (1 / 4) - pi / 2) PI2) PI2 / (2 * pi)) * 2) + py_int (7 / 8 * 2) - py_int (1 / 4 * 2))), Infodict), s')"
    using simulate_no_Z0_run [OF ex_attrs(1) ex_attrs(2) ex_attrs(3) nz(2) ex_attrs(4) nz(1)
        ex_attrs(5) ex_attrs(6) ex_attrs(7) ex_attrs(8) ex_attrs(9) ex_attrs(10) ex_attrs(11),
        of const_flow 180]
    unfolding sol_def by blast
  then have "simulate const_flow 180 NoneArg ex_self = (Inr (map fst (py_slice sol 1 2), Infodict), s')"
    unfolding ex_t0 by (simp add: py_int_def)
  then show ?thesis by (simp add: l1)
qed




section \<open>The explicit initial condition\<close>

lemma simulate_falsy:
  "truthy z = Inr False \<Longrightarrow> simulate flow p z s = simulate flow p NoneArg s"
  by (simp add: simulate_def lift_def bnd_def)

lemma simulate_truthy_raises:
  "truthy z = Inl e \<Longrightarrow> simulate flow p z s = (Inl e, s)"
  by (simp add: simulate_def lift_def bnd_def)

lemma simulate_invalid_raises:
  assumes "truthy z = Inr True"
  shows "\<not> is_array_or_list z \<Longrightarrow>
           simulate flow p z s = (Inl (TypeError ''Must be 2-size array or list''), s)"
    and "is_array_or_list z \<Longrightarrow> length (elements z) \<noteq> 2 \<Longrightarrow>
           simulate flow p z s = (Inl (ValueError ''Must specify exactly [z0, v0]''), s)"
  using assms by (simp_all add: simulate_def lift_def bnd_def explicit_conditions_def raise_def)


text \<open>Claim C10, as amended. A numpy array of two or more elements passed as the initial
  condition, a well-formed two-element array included, raises ValueError at the truth
  test, before validation and integration, and the instance is unchanged. A one-element
  array does not raise there: with a nonzero element it fails the length validation, with a
  zero element it counts as no initial condition. An empty list also counts as no initial
  condition: the phase solver path runs.\<close>

theorem simulate_array_truth:
  "(2 \<le> length xs \<longrightarrow> simulate flow p (ArrayArg xs) s = (Inl (ValueError ambiguous_truth), s)) \<and>
   (x \<noteq> 0 \<longrightarrow> simulate flow p (ArrayArg [x]) s
       = (Inl (ValueError ''Must specify exactly [z0, v0]''), s)) \<and>
   simulate flow p (ArrayArg [0]) s = simulate flow p NoneArg s \<and>
   simulate flow p (ListArg []) s = simulate flow p NoneArg s"
proof -
  have a: "simulate flow p (ArrayArg xs) s = (Inl (ValueError ambiguous_truth), s)" if "2 \<le> length xs"
  proof (cases xs)
    case Nil
    with that show ?thesis by simp
  next
    case (Cons a ys)
    note c1 = this
    show ?thesis
    proof (cases ys)
      case Nil
      with c1 that show ?thesis by simp
    next
      case (Cons b zs)
      with c1 have "truthy (ArrayArg xs) = Inl (ValueError ambiguous_truth)" by simp
      then show ?thesis by (rule simulate_truthy_raises)
    qed
  qed
  have b: "simulate flow p (ArrayArg [x]) s
       = (Inl (ValueError ''Must specify exactly [z0, v0]''), s)" if "x \<noteq> 0"
    by (rule simulate_invalid_raises(2)) (use that in simp_all)
  have c: "simulate flow p (ArrayArg [0]) s = simulate flow p NoneArg s"
    by (rule simulate_falsy) simp
  have d: "simulate flow p (ListArg []) s = simulate flow p NoneArg s"
    by (rule simulate_falsy) simp
  from a b c d show ?thesis by blast
qed


theorem simulate_array_truth_witness:
  "2 \<le> length [1, 2 :: real] \<and> (1::real) \<noteq> 0 \<and>
   simulate const_flow 180 (ArrayArg [1, 2]) ex_self = (Inl (ValueError ambiguous_truth), ex_self) \<and>
   simulate const_flow 180 (ArrayArg [1]) ex_self
       = (Inl (ValueError ''Must specify exactly [z0, v0]''), ex_self)"
proof -
  have h1: "2 \<le> length [1, 2 :: real]" by simp
  have h2: "(1::real) \<noteq> 0" by simp
  from simulate_array_truth [of "[1, 2]" const_flow 180 ex_self 1] h1 h2
  show ?thesis by blast
qed

text \<open>Claim C10 as stated fails for a non-empty array of one element: the exception is the
  one of the length validation, not the one of the truth test.\<close>

theorem simulate_one_element_array_counterexample:
  "fst (simulate const_flow 180 (ArrayArg [1]) ex_self)
       = Inl (ValueError ''Must specify exactly [z0, v0]'') \<and>
   ValueError ''Must specify exactly [z0, v0]'' \<noteq> ValueError ambiguous_truth"
proof -
  have "simulate const_flow 180 (ArrayArg [1]) ex_self
       = (Inl (ValueError ''Must specify exactly [z0, v0]''), ex_self)"
    by (rule simulate_invalid_raises(2)) simp_all
  moreover have "ValueError ''Must specify exactly [z0, v0]'' \<noteq> ValueError ambiguous_truth"
    by (simp add: ambiguous_truth_def)
  ultimately show ?thesis by simp
qed

lemma simulate_no_Z0_post:
  fixes flow :: flow and p :: real
  assumes tt: "getattr_num (attrs s) ''total_time'' = Inr T"
    and sr: "getattr_num (attrs s) ''sampling_rate'' = Inr sr"
    and rf: "getattr_num (attrs s) ''res_freq'' = Inr rf" and rf0: "rf \<noteq> 0"
    and wd: "getattr_num (attrs s) ''wd'' = Inr wd" and wd0: "wd \<noteq> 0"
    and trg: "getattr_num (attrs s) ''trigger'' = Inr trg"
    and dl: "getattr_num (attrs s) ''delta'' = Inr d"
    and amp: "getattr_num (attrs s) ''amp'' = Inr A"
    and tau: "attrs s ''tau'' = Some tauv"
    and f0: "getattr_num (attrs s) ''f0'' = Inr F"
    and w0: "getattr_num (attrs s) ''w0'' = Inr W"
    and q: "getattr_num (attrs s) ''q_factor'' = Inr Q"
  shows "infodict (snd (simulate flow p NoneArg s)) = Some Infodict"
  using tt sr rf rf0 wd wd0 trg dl amp tau f0 w0 q
  by (simp add: simulate_def set_conditions_def integrate_def
      bnd_def self_num_def set_attr_def modify_def lift_def ret_def self_attr_def self_index_def
      py_div_def odeint_def np_arange_div_def Let_def)

text \<open>Claim C3 at the empty list. \<^verbatim>\<open>simulate(180, [])\<close> on the example instance is not
  rejected: the list is not a length-2 sequence, but the truth test sends it down the path
  of no initial condition, the integration runs (the diagnostics are stored) and a
  waveform of one sample comes back. A non-empty list of the wrong length, a tuple and a
  nonzero number are rejected before the integration (\<open>simulate_invalid_raises\<close>).\<close>

theorem simulate_empty_list_accepted:
  "simulate const_flow 180 (ListArg []) ex_self = simulate const_flow 180 NoneArg ex_self \<and>
   map_sum id (length \<circ> fst) (fst (simulate const_flow 180 (ListArg []) ex_self)) = Inr 1 \<and>
   infodict (snd (simulate const_flow 180 (ListArg []) ex_self)) = Some Infodict"
proof -
  have nz: "(2 * pi :: real) \<noteq> 0" "(1::real) \<noteq> 0" by simp_all
  have e: "simulate const_flow 180 (ListArg []) ex_self = simulate const_flow 180 NoneArg ex_self"
    by (rule simulate_falsy) simp
  have i: "infodict (snd (simulate const_flow 180 NoneArg ex_self)) = Some Infodict"
    by (rule simulate_no_Z0_post [OF ex_attrs(1) ex_attrs(2) ex_attrs(3) nz(2) ex_attrs(4) nz(1)
        ex_attrs(5) ex_attrs(6) ex_attrs(7) ex_attrs(8) ex_attrs(9) ex_attrs(10) ex_attrs(11)])
  show ?thesis unfolding e using i ex_simulate_length by blast
qed

section \<open>Downsampling\<close>

lemma downsample_rejects:
  assumes "getattr_num (attrs s) ''sampling_rate'' = Inr sr" "sr < target"
  shows "downsample target s
     = (Inl (ValueError ''Target should be less than the initial sampling rate''), s)"
  using assms by (simp add: downsample_def bnd_def self_num_def raise_def)

lemma downsample_run:
  assumes sr: "getattr_num (attrs s) ''sampling_rate'' = Inr sr"
    and tt: "getattr_num (attrs s) ''total_time'' = Inr T"
    and z: "Z s = Some zs"
    and tgt: "0 < target" "target \<le> sr"
  shows "downsample target s =
     (case reshape_column (py_int (T * target)) (every_nth (nat (py_int (sr / target))) zs) of
        Inl e \<Rightarrow> (Inl e, s)
      | Inr col \<Rightarrow> bnd (self_num ''def_invols'')
           (\<lambda>def_invols. modify (\<lambda>s. s\<lparr>Z := Some (map (\<lambda>x. x / def_invols) col)\<rparr>)) s)"
proof -
  have "1 \<le> sr / target" using tgt by simp
  then have "1 \<le> \<lfloor>sr / target\<rfloor>" by linarith
  then have step: "0 < py_int (sr / target)" using tgt by (simp add: py_int_def)
  have t0: "target \<noteq> 0" "\<not> sr < target" using tgt by simp_all
  show ?thesis
    using step t0 sr tt z
    by (simp add: downsample_def bnd_def self_num_def raise_def lift_def py_div_def
        stride_from_0_def Let_def split: sum.splits)
qed


text \<open>Claim C2, as amended. On an instance that holds a waveform: \<^verbatim>\<open>downsample\<close> raises
  ValueError when the target rate is above the sampling rate, and the instance is unchanged.
  For a positive target rate below the sampling rate (and a total time that is not
  negative), when the selection of every \<open>step\<close>-th sample, \<open>step = int(rate / target)\<close>,
  has exactly \<^verbatim>\<open>int(total_time * target_rate)\<close> entries, the waveform is overwritten by one of
  that length (truncated, not rounded) and nothing else changes; when it has another number
  of entries, the reshape raises ValueError and the instance is unchanged. (A target rate
  equal to the sampling rate is left open here.)\<close>

theorem downsample_spec:
  assumes sr: "getattr_num (attrs s) ''sampling_rate'' = Inr sr"
    and tt: "getattr_num (attrs s) ''total_time'' = Inr T"
    and di: "getattr_num (attrs s) ''def_invols'' = Inr D"
    and z: "Z s = Some zs"
  shows "(sr < target \<longrightarrow> downsample target s
            = (Inl (ValueError ''Target should be less than the initial sampling rate''), s)) \<and>
         (0 < target \<and> target < sr \<and> 0 \<le> T \<longrightarrow>
            (if int (length (every_nth (nat (py_int (sr / target))) zs)) = py_int (T * target)
             then \<exists>zs'. downsample target s = (Inr (), s\<lparr>Z := Some zs'\<rparr>) \<and>
                    int (length zs') = py_int (T * target)
             else downsample target s = (Inl (ValueError ''cannot reshape array''), s)))"
proof (intro conjI impI)
  assume "sr < target"
  then show "downsample target s
      = (Inl (ValueError ''Target should be less than the initial sampling rate''), s)"
    by (rule downsample_rejects [OF sr])
next
  assume h: "0 < target \<and> target < sr \<and> 0 \<le> T"
  let ?sel = "every_nth (nat (py_int (sr / target))) zs"
  let ?n = "py_int (T * target)"
  have run: "downsample target s =
     (case reshape_column ?n ?sel of
        Inl e \<Rightarrow> (Inl e, s)
      | Inr col \<Rightarrow> bnd (self_num ''def_invols'')
           (\<lambda>def_invols. modify (\<lambda>s. s\<lparr>Z := Some (map (\<lambda>x. x / def_invols) col)\<rparr>)) s)"
    by (rule downsample_run [OF sr tt z]) (use h in simp_all)
  have n0: "0 \<le> ?n" using h by (simp add: py_int_def)
  show "if int (length ?sel) = ?n
        then \<exists>zs'. downsample target s = (Inr (), s\<lparr>Z := Some zs'\<rparr>) \<and> int (length zs') = ?n
        else downsample target s = (Inl (ValueError ''cannot reshape array''), s)"
  proof (cases "int (length ?sel) = ?n")
    case True
    then have "reshape_column ?n ?sel = Inr ?sel" by (simp add: reshape_column_def)
    then have "downsample target s = (Inr (), s\<lparr>Z := Some (map (\<lambda>x. x / D) ?sel)\<rparr>)"
      unfolding run using di by (simp add: bnd_def self_num_def modify_def)
    moreover have "int (length (map (\<lambda>x. x / D) ?sel)) = ?n" using True by simp
    ultimately have "\<exists>zs'. downsample target s = (Inr (), s\<lparr>Z := Some zs'\<rparr>) \<and>
        int (length zs') = ?n" by blast
    then show ?thesis using True by (simp only: if_True simp_thms)
  next
    case False
    moreover have "?n \<noteq> - 1" using n0 by linarith
    ultimately have "reshape_column ?n ?sel = Inl (ValueError ''cannot reshape array'')"
      by (simp add: reshape_column_def)
    then show ?thesis unfolding run using False by simp
  qed
qed


lemma simulate_no_Z0_attrs:
  fixes flow :: flow and p :: real
  assumes tt: "getattr_num (attrs s) ''total_time'' = Inr T"
    and sr: "getattr_num (attrs s) ''sampling_rate'' = Inr sr"
    and rf: "getattr_num (attrs s) ''res_freq'' = Inr rf" and rf0: "rf \<noteq> 0"
    and wd: "getattr_num (attrs s) ''wd'' = Inr wd" and wd0: "wd \<noteq> 0"
    and trg: "getattr_num (attrs s) ''trigger'' = Inr trg"
    and dl: "getattr_num (attrs s) ''delta'' = Inr d"
    and amp: "getattr_num (attrs s) ''amp'' = Inr A"
    and tau: "attrs s ''tau'' = Some tauv"
    and f0: "getattr_num (attrs s) ''f0'' = Inr F"
    and w0: "getattr_num (attrs s) ''w0'' = Inr W"
    and q: "getattr_num (attrs s) ''q_factor'' = Inr Q"
  shows "attrs (snd (simulate flow p NoneArg s)) =
     (attrs s)(''trigger_phase'' \<mapsto> PFloat (np_mod (pi * p / 180) PI2),
       ''n_points'' \<mapsto> PInt (py_int (T * sr)),
       ''n_points_sim'' \<mapsto> PInt (py_int (2 * sr / rf) + py_int (T * sr)),
       ''t0'' \<mapsto> PFloat (trg + np_mod (np_mod (pi * p / 180) PI2 - np_mod (wd * trg - d) PI2) PI2 / wd))"
  using tt sr rf rf0 wd wd0 trg dl amp tau f0 w0 q
  by (simp add: simulate_def set_conditions_def integrate_def
      bnd_def self_num_def set_attr_def modify_def lift_def ret_def self_attr_def self_index_def
      py_div_def odeint_def np_arange_div_def Let_def)


lemma ex_def_invols: "getattr_num (attrs ex_self) ''def_invols'' = Inr 1"
  by (simp add: ex_defs)

lemma ex_simulated_nums:
  "getattr_num (attrs ex_simulated) ''sampling_rate'' = Inr 2"
  "getattr_num (attrs ex_simulated) ''total_time'' = Inr (7 / 8)"
  "getattr_num (attrs ex_simulated) ''def_invols'' = Inr 1"
proof -
  have nz: "(2 * pi :: real) \<noteq> 0" "(1::real) \<noteq> 0" by simp_all
  note a = simulate_no_Z0_attrs [OF ex_attrs(1) ex_attrs(2) ex_attrs(3) nz(2) ex_attrs(4) nz(1)
        ex_attrs(5) ex_attrs(6) ex_attrs(7) ex_attrs(8) ex_attrs(9) ex_attrs(10) ex_attrs(11),
        of const_flow 180]
  show "getattr_num (attrs ex_simulated) ''sampling_rate'' = Inr 2"
    unfolding ex_simulated_def a by (simp add: ex_attrs(2))
  show "getattr_num (attrs ex_simulated) ''total_time'' = Inr (7 / 8)"
    unfolding ex_simulated_def a by (simp add: ex_attrs(1))
  show "getattr_num (attrs ex_simulated) ''def_invols'' = Inr 1"
    unfolding ex_simulated_def a by (simp add: ex_def_invols)
qed

lemma ex_simulated_Z: "Z ex_simulated = Some [- 1]"
proof -
  define sol where "sol = map (const_flow (dZ_dt (sqrt (16 * pi ^ 4)) (2 * pi) (2 * pi) 1)
       (1 * sin (- (pi / 2)), 1 * (2 * pi) * cos (- (pi / 2))))
       (np_arange_div (py_int (2 * 2 / 1) + py_int (7 / 8 * 2)) 2)"
  have sol: "sol = replicate 5 (- 1, 0)"
    by (simp add: sol_def np_arange_div_def py_int_def const_flow_def numeral_eq_Suc upt_rec)
  have sl: "map fst (py_slice sol 1 2) = [- 1]"
    unfolding sol by (simp add: py_slice_def numeral_eq_Suc)
  have nz: "(2 * pi :: real) \<noteq> 0" "(1::real) \<noteq> 0" by simp_all
  obtain s' where "simulate const_flow 180 NoneArg ex_self =
      (Inr (map fst (py_slice sol
         (py_int ((1 / 4 + np_mod (np_mod (pi * 180 / 180) PI2 - np_mod (2 * pi * (1 / 4) - pi / 2) PI2) PI2 / (2 * pi)) * 2) - py_int (1 / 4 * 2))
         (py_int ((1 / 4 + np_mod (np_mod (pi * 180 / 180) PI2 - np_mod (2 * pi * (1 / 4) - pi / 2) PI2) PI2 / (2 * pi)) * 2) + py_int (7 / 8 * 2) - py_int (1 / 4 * 2))), Infodict), s')"
     and "Z s' = Some (map fst (py_slice sol
         (py_int ((1 / 4 + np_mod (np_mod (pi * 180 / 180) PI2 - np_mod (2 * pi * (1 / 4) - pi / 2) PI2) PI2 / (2 * pi)) * 2) - py_int (1 / 4 * 2))
         (py_int ((1 / 4 + np_mod (np_mod (pi * 180 / 180) PI2 - np_mod (2 * pi * (1 / 4) - pi / 2) PI2) PI2 / (2 * pi)) * 2) + py_int (7 / 8 * 2) - py_int (1 / 4 * 2))))"
    using simulate_no_Z0_run [OF ex_attrs(1) ex_attrs(2) ex_attrs(3) nz(2) ex_attrs(4) nz(1)
        ex_attrs(5) ex_attrs(6) ex_attrs(7) ex_attrs(8) ex_attrs(9) ex_attrs(10) ex_attrs(11),
        of const_flow 180]
    unfolding sol_def by blast
  then have "snd (simulate const_flow 180 NoneArg ex_self) = s'"
    and "Z s' = Some (map fst (py_slice sol 1 2))"
    unfolding ex_t0 by (simp_all add: py_int_def)
  then show ?thesis unfolding ex_simulated_def sl by simp
qed


theorem downsample_spec_witness:
  "downsample 3 ex_simulated
     = (Inl (ValueError ''Target should be less than the initial sampling rate''), ex_simulated) \<and>
   (\<exists>zs'. downsample (3 / 2) ex_simulated = (Inr (), ex_simulated\<lparr>Z := Some zs'\<rparr>) \<and>
      int (length zs') = py_int (7 / 8 * (3 / 2))) \<and>
   downsample 1 ex_simulated = (Inl (ValueError ''cannot reshape array''), ex_simulated)"
proof -
  note t = downsample_spec [OF ex_simulated_nums(1) ex_simulated_nums(2) ex_simulated_nums(3)
      ex_simulated_Z]
  have l1: "int (length (every_nth (nat (py_int (2 / (3 / 2)))) [- 1 :: real])) = py_int (7 / 8 * (3 / 2))"
    by (simp add: py_int_def)
  have l2: "int (length (every_nth (nat (py_int (2 / 1))) [- 1 :: real])) \<noteq> py_int (7 / 8 * 1)"
    by (simp add: py_int_def)
  have a: "downsample 3 ex_simulated
     = (Inl (ValueError ''Target should be less than the initial sampling rate''), ex_simulated)"
    using t [of 3] by simp
  have b: "\<exists>zs'. downsample (3 / 2) ex_simulated = (Inr (), ex_simulated\<lparr>Z := Some zs'\<rparr>) \<and>
      int (length zs') = py_int (7 / 8 * (3 / 2))"
    using t [of "3 / 2"] l1 by simp
  have c: "downsample 1 ex_simulated = (Inl (ValueError ''cannot reshape array''), ex_simulated)"
    using t [of 1] l2 by simp
  from a b c show ?thesis by blast
qed

text \<open>Claim C2 as stated fails: on the simulated example, whose waveform has one sample at
  2 Hz, \<^verbatim>\<open>downsample(1)\<close> raises although the target rate is below the sampling rate, and
  nothing is overwritten.\<close>

theorem downsample_below_rate_counterexample:
  "getattr_num (attrs ex_simulated) ''sampling_rate'' = Inr 2 \<and> (1::real) < 2 \<and>
   Z ex_simulated = Some [- 1] \<and>
   downsample 1 ex_simulated = (Inl (ValueError ''cannot reshape array''), ex_simulated)"
proof -
  have "downsample 1 ex_simulated =
     (case reshape_column (py_int (7 / 8 * 1)) (every_nth (nat (py_int (2 / 1))) [- 1]) of
        Inl e \<Rightarrow> (Inl e, ex_simulated)
      | Inr col \<Rightarrow> bnd (self_num ''def_invols'')
           (\<lambda>def_invols. modify (\<lambda>s. s\<lparr>Z := Some (map (\<lambda>x. x / def_invols) col)\<rparr>)) ex_simulated)"
    by (rule downsample_run [OF ex_simulated_nums(1) ex_simulated_nums(2) ex_simulated_Z]) simp_all
  also have "reshape_column (py_int (7 / 8 * 1)) (every_nth (nat (py_int (2 / 1))) [- 1 :: real])
      = Inl (ValueError ''cannot reshape array'')"
    by (simp add: reshape_column_def py_int_def)
  finally show ?thesis using ex_simulated_nums(1) ex_simulated_Z by simp
qed

section \<open>The per-line fan-out\<close>







section \<open>Parameter consolidation on the heap\<close>

lemma fill_key_apply:
  "fill_key a kv d k =
     (case d k of Some v \<Rightarrow> Some v
      | None \<Rightarrow> if k = fst kv then Some (case a k of Some v \<Rightarrow> v | None \<Rightarrow> snd kv) else None)"
  by (auto simp: fill_key_def split: option.splits)

lemma fill_defaults_apply:
  "fill_defaults a ds d k =
     (case d k of Some v \<Rightarrow> Some v
      | None \<Rightarrow> (case map_of ds k of None \<Rightarrow> None
                  | Some dv \<Rightarrow> Some (case a k of Some v \<Rightarrow> v | None \<Rightarrow> dv)))"
  unfolding fill_defaults_def
proof (induction ds arbitrary: d)
  case Nil
  then show ?case by (simp split: option.splits)
next
  case (Cons kv ds)
  obtain k' dv' where kv: "kv = (k', dv')" by (cases kv)
  have "fold (fill_key a) (kv # ds) d k = fold (fill_key a) ds (fill_key a kv d) k" by simp
  also have "\<dots> = (case fill_key a kv d k of Some v \<Rightarrow> Some v
      | None \<Rightarrow> (case map_of ds k of None \<Rightarrow> None
                  | Some dv \<Rightarrow> Some (case a k of Some v \<Rightarrow> v | None \<Rightarrow> dv)))"
    by (rule Cons.IH)
  also have "\<dots> = (case d k of Some v \<Rightarrow> Some v
      | None \<Rightarrow> (case map_of (kv # ds) k of None \<Rightarrow> None
                  | Some dv \<Rightarrow> Some (case a k of Some v \<Rightarrow> v | None \<Rightarrow> dv)))"
  proof (cases "d k")
    case None
    then show ?thesis
      by (cases "k = k'") (auto simp: kv fill_key_def split: option.splits)
  next
    case (Some v)
    then show ?thesis by (auto simp: kv fill_key_def split: option.splits)
  qed
  finally show ?case .
qed

lemma cells_fill_at [simp]:
  "cells (fill_at a ds r h) r' = (if r' = r then fill_defaults a ds (cells h r) else cells h r')"
  by (simp add: fill_at_def)

lemma cells_dict_update [simp]:
  "cells (dict_update dst src h) r' = (if r' = dst then cells h dst ++ cells h src else cells h r')"
  by (simp add: dict_update_def)

lemma next_ref_fill_at [simp]: "next_ref (fill_at a ds r h) = next_ref h"
  by (simp add: fill_at_def)

lemma next_ref_dict_update [simp]: "next_ref (dict_update dst src h) = next_ref h"
  by (simp add: dict_update_def)

lemma next_ref_create_parameters [simp]:
  "next_ref (create_parameters self p c f h) = next_ref h"
  by (simp add: create_parameters_def Let_def)

text \<open>The bundles after a call whose three argument dictionaries are distinct objects and are
  not the instance's bundles.\<close>

lemma create_parameters_separate:
  assumes "distinct [p, c, f, parameters self, can_params self, fit_params self]"
  shows "cells (create_parameters self p c f h) (parameters self)
           = cells h (parameters self) ++ fill_defaults (attrs self) default_parameters (cells h p)"
    and "cells (create_parameters self p c f h) (can_params self)
           = cells h (can_params self) ++ fill_defaults (attrs self) default_can_params (cells h c)"
    and "cells (create_parameters self p c f h) (fit_params self)
           = cells h (fit_params self) ++ fill_defaults (attrs self) default_fit_params (cells h f)"
    and "cells (create_parameters self p c f h) p
           = fill_defaults (attrs self) default_parameters (cells h p)"
    and "cells (create_parameters self p c f h) c
           = fill_defaults (attrs self) default_can_params (cells h c)"
    and "cells (create_parameters self p c f h) f
           = fill_defaults (attrs self) default_fit_params (cells h f)"
    and "r \<notin> {p, c, f, parameters self, can_params self, fit_params self} \<Longrightarrow>
           cells (create_parameters self p c f h) r = cells h r"
  using assms by (auto simp: create_parameters_def Let_def)


lemma map_of_snoc:
  "map_of (xs @ [(k', v)]) k = (case map_of xs k of Some x \<Rightarrow> Some x | None \<Rightarrow> if k = k' then Some v else None)"
  by (induction xs) auto

lemma route_kwargs_apply:
  "route_kwargs kws (p, c, f) = (p', c', f') \<Longrightarrow>
    p' k = (if k \<in> set param_keys
            then (case map_of (rev kws) k of Some v \<Rightarrow> Some v | None \<Rightarrow> p k) else p k) \<and>
    c' k = (if k \<in> set can_param_keys \<and> k \<notin> set param_keys
            then (case map_of (rev kws) k of Some v \<Rightarrow> Some v | None \<Rightarrow> c k) else c k) \<and>
    f' k = (if k \<in> set fit_param_keys \<and> k \<notin> set can_param_keys \<and> k \<notin> set param_keys
            then (case map_of (rev kws) k of Some v \<Rightarrow> Some v | None \<Rightarrow> f k) else f k)"
proof (induction kws arbitrary: p c f)
  case Nil
  then show ?case by simp
next
  case (Cons kv kws)
  obtain k' v where kv: "kv = (k', v)" by (cases kv)
  consider (P) "k' \<in> set param_keys"
    | (C) "k' \<notin> set param_keys" "k' \<in> set can_param_keys"
    | (F) "k' \<notin> set param_keys" "k' \<notin> set can_param_keys" "k' \<in> set fit_param_keys"
    | (N) "k' \<notin> set param_keys" "k' \<notin> set can_param_keys" "k' \<notin> set fit_param_keys"
    by blast
  then show ?case
  proof cases
    case P
    then have "route_kwargs kws (p(k' \<mapsto> v), c, f) = (p', c', f')"
      using Cons.prems by (simp add: kv)
    from Cons.IH [OF this] P show ?thesis
      by (auto simp: kv map_of_snoc split: option.splits)
  next
    case C
    then have "route_kwargs kws (p, c(k' \<mapsto> v), f) = (p', c', f')"
      using Cons.prems by (simp add: kv)
    from Cons.IH [OF this] C show ?thesis
      by (auto simp: kv map_of_snoc split: option.splits)
  next
    case F
    then have "route_kwargs kws (p, c, f(k' \<mapsto> v)) = (p', c', f')"
      using Cons.prems by (simp add: kv)
    from Cons.IH [OF this] F show ?thesis
      by (auto simp: kv map_of_snoc split: option.splits)
  next
    case N
    then have "route_kwargs kws (p, c, f) = (p', c', f')"
      using Cons.prems by (simp add: kv)
    from Cons.IH [OF this] N show ?thesis
      by (auto simp: kv map_of_snoc split: option.splits)
  qed
qed

lemma fill_defaults_resolve:
  "map_of ds k \<noteq> None \<Longrightarrow> fill_defaults a ds d k = spec_resolve d a ds k"
  by (auto simp: fill_defaults_apply spec_resolve_def split: option.splits)

lemma fill_defaults_other:
  "map_of ds k = None \<Longrightarrow> fill_defaults a ds d k = d k"
  by (auto simp: fill_defaults_apply split: option.splits)

lemma default_keys:
  "map fst default_parameters = param_keys"
  "map fst default_can_params = can_param_keys"
  "map fst default_fit_params = fit_param_keys"
  by (simp_all add: default_parameters_def param_keys_def default_can_params_def
      can_param_keys_def default_fit_params_def fit_param_keys_def)

lemma map_of_default_iff:
  "map_of default_parameters k = None \<longleftrightarrow> k \<notin> set param_keys"
  "map_of default_can_params k = None \<longleftrightarrow> k \<notin> set can_param_keys"
  "map_of default_fit_params k = None \<longleftrightarrow> k \<notin> set fit_param_keys"
  unfolding default_keys [symmetric] by (simp_all add: map_of_eq_None_iff)

lemma key_groups_disjoint:
  "set can_param_keys \<inter> set param_keys = {}"
  "set fit_param_keys \<inter> set param_keys = {}"
  "set fit_param_keys \<inter> set can_param_keys = {}"
  by (simp_all add: param_keys_def can_param_keys_def fit_param_keys_def)

lemma analyze_bundles:
  assumes alloc: "parameters self < next_ref h" "can_params self < next_ref h"
      "fit_params self < next_ref h"
    and dist: "distinct [parameters self, can_params self, fit_params self]"
    and r: "route_kwargs kws (Map.empty, Map.empty, Map.empty) = (P, C, F)"
  shows "cells (analyze self kws h) (parameters self)
           = cells h (parameters self) ++ fill_defaults (attrs self) default_parameters P"
    and "cells (analyze self kws h) (can_params self)
           = cells h (can_params self) ++ fill_defaults (attrs self) default_can_params C"
    and "cells (analyze self kws h) (fit_params self)
           = cells h (fit_params self) ++ fill_defaults (attrs self) default_fit_params F"
proof -
  let ?p = "next_ref h" and ?c = "Suc (next_ref h)" and ?f = "Suc (Suc (next_ref h))"
  let ?h3 = "\<lparr>cells = (cells h)(?p := P, ?c := C, ?f := F), next_ref = Suc ?f\<rparr>"
  have an: "analyze self kws h = create_parameters self ?p ?c ?f ?h3"
    by (simp add: analyze_def r new_dict_def)
  have d: "distinct [?p, ?c, ?f, parameters self, can_params self, fit_params self]"
    using alloc dist by auto
  note sep = create_parameters_separate [OF d, where h = ?h3]
  show "cells (analyze self kws h) (parameters self)
           = cells h (parameters self) ++ fill_defaults (attrs self) default_parameters P"
    unfolding an sep(1) using alloc by simp
  show "cells (analyze self kws h) (can_params self)
           = cells h (can_params self) ++ fill_defaults (attrs self) default_can_params C"
    unfolding an sep(2) using alloc by simp
  show "cells (analyze self kws h) (fit_params self)
           = cells h (fit_params self) ++ fill_defaults (attrs self) default_fit_params F"
    unfolding an sep(3) using alloc by simp
qed

lemma routed_lookup:
  assumes r: "route_kwargs kws (Map.empty, Map.empty, Map.empty) = (P, C, F)"
  shows "P k = (if k \<in> set param_keys then map_of (rev kws) k else None)"
    and "C k = (if k \<in> set can_param_keys then map_of (rev kws) k else None)"
    and "F k = (if k \<in> set fit_param_keys then map_of (rev kws) k else None)"
proof -
  note a = route_kwargs_apply [OF r, of k]
  show "P k = (if k \<in> set param_keys then map_of (rev kws) k else None)"
    using a by (simp split: option.splits)
  show "C k = (if k \<in> set can_param_keys then map_of (rev kws) k else None)"
    using a key_groups_disjoint(1) by (auto split: option.splits)
  show "F k = (if k \<in> set fit_param_keys then map_of (rev kws) k else None)"
    using a key_groups_disjoint(2) key_groups_disjoint(3) by (auto split: option.splits)
qed

lemma bundle_lookup:
  assumes "\<And>k. P k = (if k \<in> set keys then ov k else None)"
    and keys: "\<And>k. map_of ds k = None \<longleftrightarrow> k \<notin> set keys"
  shows "(b ++ fill_defaults a ds P) k =
     (if k \<in> set keys then spec_resolve ov a ds k else b k)"
proof (cases "k \<in> set keys")
  case True
  then have m: "map_of ds k \<noteq> None" using keys by simp
  then obtain dv where dv: "map_of ds k = Some dv" by blast
  have "fill_defaults a ds P k = spec_resolve P a ds k" by (rule fill_defaults_resolve [OF m])
  also have "\<dots> = spec_resolve ov a ds k" using assms(1) [of k] True by (simp add: spec_resolve_def)
  finally have e: "fill_defaults a ds P k = spec_resolve ov a ds k" .
  have "spec_resolve ov a ds k \<noteq> None" by (simp add: spec_resolve_def dv split: option.splits)
  then show ?thesis using True e by (auto simp: map_add_def split: option.splits)
next
  case False
  then have "map_of ds k = None" using keys by simp
  then have "fill_defaults a ds P k = P k" by (rule fill_defaults_other)
  also have "\<dots> = None" using assms(1) [of k] False by simp
  finally show ?thesis using False by (simp add: map_add_def)
qed

lemma analyze_lookup:
  assumes alloc: "parameters self < next_ref h" "can_params self < next_ref h"
      "fit_params self < next_ref h"
    and dist: "distinct [parameters self, can_params self, fit_params self]"
  shows "cells (analyze self kws h) (parameters self) k =
           (if k \<in> set param_keys
            then spec_resolve (map_of (rev kws)) (attrs self) default_parameters k
            else cells h (parameters self) k)"
    and "cells (analyze self kws h) (can_params self) k =
           (if k \<in> set can_param_keys
            then spec_resolve (map_of (rev kws)) (attrs self) default_can_params k
            else cells h (can_params self) k)"
    and "cells (analyze self kws h) (fit_params self) k =
           (if k \<in> set fit_param_keys
            then spec_resolve (map_of (rev kws)) (attrs self) default_fit_params k
            else cells h (fit_params self) k)"
proof -
  obtain P C F where r: "route_kwargs kws (Map.empty, Map.empty, Map.empty) = (P, C, F)"
    by (cases "route_kwargs kws (Map.empty, Map.empty, Map.empty)") auto
  note b = analyze_bundles [OF alloc dist r]
  show "cells (analyze self kws h) (parameters self) k =
           (if k \<in> set param_keys
            then spec_resolve (map_of (rev kws)) (attrs self) default_parameters k
            else cells h (parameters self) k)"
    unfolding b(1) by (rule bundle_lookup [OF routed_lookup(1) [OF r] map_of_default_iff(1)])
  show "cells (analyze self kws h) (can_params self) k =
           (if k \<in> set can_param_keys
            then spec_resolve (map_of (rev kws)) (attrs self) default_can_params k
            else cells h (can_params self) k)"
    unfolding b(2) by (rule bundle_lookup [OF routed_lookup(2) [OF r] map_of_default_iff(2)])
  show "cells (analyze self kws h) (fit_params self) k =
           (if k \<in> set fit_param_keys
            then spec_resolve (map_of (rev kws)) (attrs self) default_fit_params k
            else cells h (fit_params self) k)"
    unfolding b(3) by (rule bundle_lookup [OF routed_lookup(3) [OF r] map_of_default_iff(3)])
qed

lemma next_ref_analyze: "next_ref (analyze self kws h) = next_ref h + 3"
  by (simp add: analyze_def new_dict_def split: prod.splits)

lemma ex_refs:
  "parameters ex_self = 4" "can_params ex_self = 3" "fit_params ex_self = 6"
  "next_ref ex_built = 7"
  by (simp_all add: ex_defs ex_built_def heap_after_def)

lemma ex_no_roi: "attrs ex_self ''roi'' = None"
  by (simp add: ex_defs)

lemma ex_alloc:
  "parameters ex_self < next_ref ex_built" "can_params ex_self < next_ref ex_built"
  "fit_params ex_self < next_ref ex_built"
  "distinct [parameters ex_self, can_params ex_self, fit_params ex_self]"
  by (simp_all add: ex_refs)

text \<open>Claim C6, as amended. After \<^verbatim>\<open>analyze(**kwargs)\<close> on an instance whose three bundles
  are distinct dictionaries, each bundle holds, for every recognized key of its group, the
  value resolved in the order of \<open>spec_resolve\<close>: the override among the keyword arguments,
  else the instance attribute, else the hard default. Every call resolves every recognized
  key again, so an override of an earlier call lasts only as long as it is repeated. A key
  outside the group's list keeps the value the bundle had before the call.\<close>

theorem analyze_precedence:
  assumes "parameters self < next_ref h" "can_params self < next_ref h"
      "fit_params self < next_ref h"
    and "distinct [parameters self, can_params self, fit_params self]"
  shows "cells (analyze self kws h) (parameters self) k =
           (if k \<in> set param_keys
            then spec_resolve (map_of (rev kws)) (attrs self) default_parameters k
            else cells h (parameters self) k) \<and>
         cells (analyze self kws h) (can_params self) k =
           (if k \<in> set can_param_keys
            then spec_resolve (map_of (rev kws)) (attrs self) default_can_params k
            else cells h (can_params self) k) \<and>
         cells (analyze self kws h) (fit_params self) k =
           (if k \<in> set fit_param_keys
            then spec_resolve (map_of (rev kws)) (attrs self) default_fit_params k
            else cells h (fit_params self) k)"
  using analyze_lookup [OF assms] by blast

lemma roi_key: "''roi'' \<in> set param_keys"
  by (simp add: param_keys_def)

lemma roi_default: "map_of default_parameters ''roi'' = Some (PFloat (3 / 10000))"
  by (simp add: default_parameters_def)

theorem analyze_precedence_witness:
  "parameters ex_self < next_ref ex_built \<and>
   distinct [parameters ex_self, can_params ex_self, fit_params ex_self] \<and>
   cells (analyze ex_self [(''roi'', PFloat (4 / 1000))] ex_built) (parameters ex_self) ''roi''
     = Some (PFloat (4 / 1000)) \<and>
   cells (analyze ex_self [] ex_built) (parameters ex_self) ''roi'' = Some (PFloat (3 / 10000))"
proof -
  have a: "cells (analyze ex_self [(''roi'', PFloat (4 / 1000))] ex_built) (parameters ex_self) ''roi''
     = Some (PFloat (4 / 1000))"
    using analyze_precedence [OF ex_alloc, of "[(''roi'', PFloat (4 / 1000))]" "''roi''"] roi_key
    by (simp add: spec_resolve_def)
  have b: "cells (analyze ex_self [] ex_built) (parameters ex_self) ''roi'' = Some (PFloat (3 / 10000))"
    using analyze_precedence [OF ex_alloc, of "[]" "''roi''"] roi_key
    by (simp add: spec_resolve_def ex_no_roi roi_default)
  from a b ex_alloc(1) ex_alloc(4) show ?thesis by blast
qed

text \<open>Claim C6 as stated fails in its second half: \<^verbatim>\<open>analyze(roi=0.004)\<close> followed by
  \<^verbatim>\<open>analyze()\<close> leaves \<open>roi\<close> at the hard default 0.0003, although the second call does
  not mention \<open>roi\<close>.\<close>

theorem analyze_override_lost_counterexample:
  "cells (analyze ex_self [(''roi'', PFloat (4 / 1000))] ex_built) (parameters ex_self) ''roi''
     = Some (PFloat (4 / 1000)) \<and>
   cells (analyze ex_self [] (analyze ex_self [(''roi'', PFloat (4 / 1000))] ex_built))
      (parameters ex_self) ''roi'' = Some (PFloat (3 / 10000))"
proof -
  let ?h1 = "analyze ex_self [(''roi'', PFloat (4 / 1000))] ex_built"
  have a: "cells ?h1 (parameters ex_self) ''roi'' = Some (PFloat (4 / 1000))"
    unfolding analyze_lookup(1) [OF ex_alloc] using roi_key by (simp add: spec_resolve_def)
  have al: "parameters ex_self < next_ref ?h1" "can_params ex_self < next_ref ?h1"
    "fit_params ex_self < next_ref ?h1"
    using ex_alloc by (simp_all add: next_ref_analyze)
  have b: "cells (analyze ex_self [] ?h1) (parameters ex_self) ''roi'' = Some (PFloat (3 / 10000))"
    unfolding analyze_lookup(1) [OF al ex_alloc(4)] using roi_key
    by (simp add: spec_resolve_def ex_no_roi roi_default)
  from a b show ?thesis by blast
qed

section \<open>What construction does to the caller's dictionaries\<close>

lemma Cantilever_init_heap:
  assumes "Cantilever_init canr forcer simr h = Inr (s, h')"
  shows "parameters s = forcer" "can_params s = canr" "fit_params s = next_ref h"
    "h' = create_parameters s forcer canr dflt_fit_params
            (dict_update forcer simr
               \<lparr>cells = (cells h)(next_ref h := Map.empty), next_ref = Suc (next_ref h)\<rparr>)"
  using assms
  by (auto simp: Cantilever_init_def bind_err_def new_dict_def Let_def
      split: sum.splits prod.splits)

lemma map_add_same: "m ++ m = m"
  by (rule ext) (simp add: map_add_def split: option.splits)

text \<open>The call the constructor makes: the first two arguments are the instance's own
  bundles.\<close>

lemma create_parameters_own:
  assumes "p = parameters self" "c = can_params self" "distinct [p, c, f, fit_params self]"
  shows "cells (create_parameters self p c f h) p
           = fill_defaults (attrs self) default_parameters (cells h p)"
    and "cells (create_parameters self p c f h) c
           = fill_defaults (attrs self) default_can_params (cells h c)"
    and "cells (create_parameters self p c f h) f
           = fill_defaults (attrs self) default_fit_params (cells h f)"
    and "cells (create_parameters self p c f h) (fit_params self)
           = cells h (fit_params self) ++ fill_defaults (attrs self) default_fit_params (cells h f)"
    and "r \<notin> {p, c, f, fit_params self} \<Longrightarrow> cells (create_parameters self p c f h) r = cells h r"
  using assms by (auto simp: create_parameters_def Let_def map_add_same)

lemma fill_defaults_keeps: "d k = Some v \<Longrightarrow> fill_defaults a ds d k = Some v"
  by (simp add: fill_defaults_apply)


lemma Cantilever_init_attrs_sim:
  assumes "Cantilever_init canr forcer simr h = Inr (s, h')" "cells h simr k = Some v"
  shows "attrs s k = Some v"
  using assms
  by (auto simp: Cantilever_init_def init_sim_def bind_err_def new_dict_def Let_def
      split: sum.splits prod.splits)

lemma Cantilever_init_cells:
  assumes init: "Cantilever_init canr forcer simr h = Inr (s, h')"
    and dist: "distinct [canr, forcer, simr, dflt_fit_params]"
    and alloc: "canr < next_ref h" "forcer < next_ref h" "simr < next_ref h"
      "dflt_fit_params < next_ref h"
  shows "cells h' forcer
           = fill_defaults (attrs s) default_parameters (cells h forcer ++ cells h simr)"
    and "cells h' canr = fill_defaults (attrs s) default_can_params (cells h canr)"
    and "cells h' simr = cells h simr"
    and "r < next_ref h \<Longrightarrow> r \<notin> {canr, forcer, dflt_fit_params} \<Longrightarrow> cells h' r = cells h r"
proof -
  let ?h1 = "\<lparr>cells = (cells h)(next_ref h := Map.empty), next_ref = Suc (next_ref h)\<rparr>"
  let ?h2 = "dict_update forcer simr ?h1"
  note i = Cantilever_init_heap [OF init]
  have d: "distinct [forcer, canr, dflt_fit_params, fit_params s]"
    using dist alloc by (auto simp: i(3))
  note own = create_parameters_own [OF i(1) [symmetric] i(2) [symmetric] d, where h = ?h2]
  show "cells h' forcer
           = fill_defaults (attrs s) default_parameters (cells h forcer ++ cells h simr)"
    unfolding i(4) own(1) using dist alloc by simp
  show "cells h' canr = fill_defaults (attrs s) default_can_params (cells h canr)"
    unfolding i(4) own(2) using dist alloc by auto
  show "cells h' simr = cells h simr"
  proof -
    have "simr \<notin> {forcer, canr, dflt_fit_params, fit_params s}"
      using dist alloc by (auto simp: i(3))
    from own(5) [OF this] show ?thesis unfolding i(4) using dist alloc by auto
  qed
  show "cells h' r = cells h r"
    if "r < next_ref h" "r \<notin> {canr, forcer, dflt_fit_params}"
  proof -
    have "r \<notin> {forcer, canr, dflt_fit_params, fit_params s}"
      using that by (auto simp: i(3))
    from own(5) [OF this] show ?thesis unfolding i(4) using that by auto
  qed
qed

text \<open>Claim C4, as amended. When the caller passes three distinct dictionaries, construction
  copies the values of \<^verbatim>\<open>sim_params\<close> into instance attributes and keeps references to the
  other two: the simulator's \<^verbatim>\<open>parameters\<close> bundle is the caller's \<^verbatim>\<open>force_params\<close>
  dictionary and its \<^verbatim>\<open>can_params\<close> bundle is the caller's \<^verbatim>\<open>can_params\<close> dictionary.
  \<^verbatim>\<open>sim_params\<close> is not changed. \<^verbatim>\<open>can_params\<close> keeps every entry and gains the
  recognized cantilever keys it lacks. \<^verbatim>\<open>force_params\<close> receives every entry of
  \<^verbatim>\<open>sim_params\<close>, keeps its other entries, and gains the recognized analysis keys it
  lacks. Every other dictionary, the shared default of \<^verbatim>\<open>fit_params\<close> apart, is
  unchanged.\<close>

theorem Cantilever_init_aliasing:
  assumes init: "Cantilever_init canr forcer simr h = Inr (s, h')"
    and dist: "distinct [canr, forcer, simr, dflt_fit_params]"
    and alloc: "canr < next_ref h" "forcer < next_ref h" "simr < next_ref h"
      "dflt_fit_params < next_ref h"
  shows "parameters s = forcer \<and> can_params s = canr \<and> fit_params s = next_ref h \<and>
         cells h' simr = cells h simr \<and>
         cells h' forcer
           = fill_defaults (attrs s) default_parameters (cells h forcer ++ cells h simr) \<and>
         cells h' canr = fill_defaults (attrs s) default_can_params (cells h canr) \<and>
         (\<forall>k v. cells h simr k = Some v \<longrightarrow> attrs s k = Some v \<and> cells h' forcer k = Some v) \<and>
         (\<forall>k v. cells h canr k = Some v \<longrightarrow> cells h' canr k = Some v) \<and>
         (\<forall>k v. cells h forcer k = Some v \<longrightarrow> cells h simr k = None \<longrightarrow> cells h' forcer k = Some v) \<and>
         (\<forall>r. r < next_ref h \<longrightarrow> r \<notin> {canr, forcer, dflt_fit_params} \<longrightarrow> cells h' r = cells h r)"
proof -
  note i = Cantilever_init_heap [OF init]
  note cl = Cantilever_init_cells [OF init dist alloc]
  have k1: "attrs s k = Some v \<and> cells h' forcer k = Some v" if "cells h simr k = Some v" for k v
    using that Cantilever_init_attrs_sim [OF init that]
    by (simp add: cl(1) fill_defaults_keeps)
  have k2: "cells h' canr k = Some v" if "cells h canr k = Some v" for k v
    using that by (simp add: cl(2) fill_defaults_keeps)
  have k3: "cells h' forcer k = Some v" if "cells h forcer k = Some v" "cells h simr k = None" for k v
    using that by (simp add: cl(1) fill_defaults_keeps map_add_def)
  from i(1) i(2) i(3) cl(3) cl(1) cl(2) k1 k2 k3 cl(4) show ?thesis by blast
qed

lemma ex_init: "Cantilever_init 3 4 5 ex_heap = Inr (ex_self, ex_built)"
  by (simp add: ex_defs ex_built_def heap_after_def)

lemma ex_dist:
  "distinct [3, 4, 5, dflt_fit_params]"
  "3 < next_ref ex_heap" "4 < next_ref ex_heap" "5 < next_ref ex_heap"
  "dflt_fit_params < next_ref ex_heap"
  by (simp_all add: dflt_fit_params_def ex_heap_def)

theorem Cantilever_init_aliasing_witness:
  "Cantilever_init 3 4 5 ex_heap = Inr (ex_self, ex_built) \<and>
   distinct [3, 4, 5, dflt_fit_params] \<and> 5 < next_ref ex_heap \<and>
   parameters ex_self = 4 \<and> can_params ex_self = 3 \<and> cells ex_built 5 = cells ex_heap 5 \<and>
   cells ex_built 4 = fill_defaults (attrs ex_self) default_parameters (cells ex_heap 4 ++ cells ex_heap 5)"
  using Cantilever_init_aliasing [OF ex_init ex_dist] ex_init ex_dist(1) ex_dist(4) by blast

text \<open>Claim C4 as stated fails: after the construction of the example, the
  \<^verbatim>\<open>parameters\<close> bundle is the caller's \<^verbatim>\<open>force_params\<close> dictionary (reference 4), and
  that dictionary has gained the key \<^verbatim>\<open>trigger\<close>.\<close>

theorem Cantilever_init_aliasing_counterexample:
  "Cantilever_init 3 4 5 ex_heap = Inr (ex_self, ex_built) \<and>
   parameters ex_self = 4 \<and>
   cells ex_heap 4 ''trigger'' = None \<and>
   cells ex_built 4 ''trigger'' = Some (PFloat (1 / 4))"
proof -
  have a: "cells ex_heap 4 ''trigger'' = None" by (simp add: ex_heap_def heap0_def ex_force_def)
  have s: "cells ex_heap 5 ''trigger'' = Some (PFloat (1 / 4))"
    by (simp add: ex_heap_def heap0_def ex_sim_def)
  have "cells ex_built 4 ''trigger'' = Some (PFloat (1 / 4))"
    unfolding Cantilever_init_cells(1) [OF ex_init ex_dist]
    by (rule fill_defaults_keeps) (simp add: map_add_def s)
  with a ex_init Cantilever_init_heap(1) [OF ex_init] show ?thesis by blast
qed

section \<open>Two instances and the shared default dictionaries\<close>

lemma ex2_init: "Cantilever_init 7 8 9 ex_heap2 = Inr (ex_other, ex_built2)"
  by (simp add: Cantilever_init_def ex_heap2_def ex2_can_def ex_can_def ex_force_def ex_sim_def
     init_cantilever_def init_force_def init_sim_def getattr_num_def py_div_def PI2_def
     np_arctan_divide_def py_int_def np_linspace_def new_dict_def Let_def instance_of_def
     ex_other_def ex_built2_def heap_after_def)

lemma ex2_drive_freq: "attrs ex_other ''drive_freq'' = Some (PFloat 3)"
  by (simp add: Cantilever_init_def ex_heap2_def ex2_can_def ex_can_def ex_force_def ex_sim_def
     init_cantilever_def init_force_def init_sim_def getattr_num_def py_div_def PI2_def
     np_arctan_divide_def py_int_def np_linspace_def new_dict_def Let_def instance_of_def
     ex_other_def)

lemma ex_drive_freq: "attrs ex_self ''drive_freq'' = Some (PFloat 1)"
  by (simp add: ex_defs)


lemma ex2_dist:
  "distinct [7, 8, 9, dflt_fit_params]"
  "7 < next_ref ex_heap2" "8 < next_ref ex_heap2" "9 < next_ref ex_heap2"
  "dflt_fit_params < next_ref ex_heap2"
  by (simp_all add: dflt_fit_params_def ex_heap2_def)

lemma ex2_refs:
  "parameters ex_other = 8" "can_params ex_other = 7" "fit_params ex_other = 10"
  using Cantilever_init_heap [OF ex2_init] by (simp_all add: ex_heap2_def)

lemma ex_built2_defaults: "cells ex_built2 dflt_params = Map.empty"
proof -
  have "cells ex_built2 dflt_params = cells ex_heap2 dflt_params"
    by (rule Cantilever_init_cells(4) [OF ex2_init ex2_dist])
       (simp_all add: dflt_params_def dflt_fit_params_def ex_heap2_def)
  also have "\<dots> = cells ex_built dflt_params"
    by (simp add: ex_heap2_def dflt_params_def)
  also have "\<dots> = cells ex_heap dflt_params"
    by (rule Cantilever_init_cells(4) [OF ex_init ex_dist])
       (simp_all add: dflt_params_def dflt_fit_params_def ex_heap_def)
  also have "\<dots> = Map.empty" by (simp add: ex_heap_def heap0_def dflt_params_def)
  finally show ?thesis .
qed

lemma drive_freq_default: "map_of default_parameters ''drive_freq'' = Some (PInt 277261)"
  by (simp add: default_parameters_def)

text \<open>Claim C8 on two instances. \<open>ex_self\<close> has \<open>drive_freq = 1\<close> and \<open>ex_other\<close> has
  \<open>drive_freq = 3\<close>. \<^verbatim>\<open>ex_other.create_parameters()\<close> alone resolves \<open>drive_freq\<close> to 3 in
  the bundle of \<open>ex_other\<close>; after \<^verbatim>\<open>ex_self.create_parameters()\<close> the same call resolves it
  to 1, the value of the other instance, which the shared default dictionary has kept.\<close>

theorem create_parameters_shared_defaults:
  "attrs ex_other ''drive_freq'' = Some (PFloat 3) \<and>
   cells (create_parameters ex_other dflt_params dflt_can_params dflt_fit_params ex_built2)
      (parameters ex_other) ''drive_freq'' = Some (PFloat 3) \<and>
   cells (create_parameters ex_other dflt_params dflt_can_params dflt_fit_params
            (create_parameters ex_self dflt_params dflt_can_params dflt_fit_params ex_built2))
      (parameters ex_other) ''drive_freq'' = Some (PFloat 1)"
proof -
  let ?ha = "create_parameters ex_self dflt_params dflt_can_params dflt_fit_params ex_built2"
  have d2: "distinct [dflt_params, dflt_can_params, dflt_fit_params,
      parameters ex_other, can_params ex_other, fit_params ex_other]"
    by (simp add: ex2_refs dflt_params_def dflt_can_params_def dflt_fit_params_def)
  have d1: "distinct [dflt_params, dflt_can_params, dflt_fit_params,
      parameters ex_self, can_params ex_self, fit_params ex_self]"
    by (simp add: ex_refs dflt_params_def dflt_can_params_def dflt_fit_params_def)
  have f2: "fill_defaults (attrs ex_other) default_parameters Map.empty ''drive_freq''
      = Some (PFloat 3)"
    by (simp add: fill_defaults_apply drive_freq_default ex2_drive_freq)
  have alone: "cells (create_parameters ex_other dflt_params dflt_can_params dflt_fit_params ex_built2)
      (parameters ex_other) ''drive_freq'' = Some (PFloat 3)"
    unfolding create_parameters_separate(1) [OF d2] ex_built2_defaults
    by (simp add: map_add_def f2)
  have "cells ?ha dflt_params ''drive_freq'' = Some (PFloat 1)"
    unfolding create_parameters_separate(4) [OF d1] ex_built2_defaults
    by (simp add: fill_defaults_apply drive_freq_default ex_drive_freq)
  then have "fill_defaults (attrs ex_other) default_parameters (cells ?ha dflt_params) ''drive_freq''
      = Some (PFloat 1)"
    by (rule fill_defaults_keeps)
  then have after: "cells (create_parameters ex_other dflt_params dflt_can_params dflt_fit_params ?ha)
      (parameters ex_other) ''drive_freq'' = Some (PFloat 1)"
    unfolding create_parameters_separate(1) [OF d2] by (simp add: map_add_def)
  from ex2_drive_freq alone after show ?thesis by blast
qed

section \<open>A pre-roll shorter than the trim offset\<close>

lemma ex3_delta: "np_arctan_divide (2 * (PI2 * (1 / 2)) * (PI2 * 4 / (2 * (8 / 63))))
     ((PI2 * 4) ^ 2 - (PI2 * (1 / 2)) ^ 2) = Some (pi / 4)"
proof -
  have "2 * (PI2 * (1 / 2)) * (PI2 * 4 / (2 * (8 / 63))) = 63 * pi ^ 2"
    by (simp add: power2_eq_square PI2_def)
  moreover have "(PI2 * 4) ^ 2 - (PI2 * (1 / 2)) ^ 2 = 63 * pi ^ 2"
    by (simp add: power2_eq_square PI2_def)
  ultimately show ?thesis by (simp add: np_arctan_divide_def arctan_one)
qed

lemma ex3_can_nums:
  "getattr_num ex3_can ''res_freq'' = Inr 4"
  "getattr_num ex3_can ''drive_freq'' = Inr (1 / 2)"
  "getattr_num ex3_can ''q_factor'' = Inr (8 / 63)"
  "getattr_num ex3_can ''k'' = Inr 1"
  "getattr_num ex3_can ''soft_amp'' = Inr 1"
  "getattr_num ex3_can ''amp_invols'' = Inr 1"
  by (simp_all add: ex3_can_def getattr_num_def)

lemma ex3_cantilever:
  "\<exists>F. init_cantilever ex3_can =
     Inr (ex3_can(''w0'' \<mapsto> PFloat (PI2 * 4), ''wd'' \<mapsto> PFloat (PI2 * (1 / 2)),
            ''beta'' \<mapsto> PFloat (PI2 * 4 / (2 * (8 / 63))),
            ''mass'' \<mapsto> PFloat (1 / (PI2 * 4) ^ 2),
            ''amp'' \<mapsto> PFloat (1 * 1), ''f0'' \<mapsto> PFloat F, ''delta'' \<mapsto> PFloat (pi / 4)))"
proof -
  have d1: "py_div (PI2 * 4) (2 * (8 / 63)) = Inr (PI2 * 4 / (2 * (8 / 63)))"
    by (simp add: py_div_def)
  have d2: "py_div 1 ((PI2 * 4) ^ 2) = Inr (1 / (PI2 * 4) ^ 2)"
    by (simp add: py_div_def PI2_def)
  have ab: "\<bar>pi / 4\<bar> = pi / 4" by simp
  show ?thesis
    unfolding init_cantilever_def ex3_can_nums Let_def bind_err_Inr d1 d2 ex3_delta option.case ab
    by blast
qed

lemma ex3_attrs:
  "getattr_num (attrs ex_slow) ''total_time'' = Inr (7 / 8)"
  "getattr_num (attrs ex_slow) ''sampling_rate'' = Inr 8"
  "getattr_num (attrs ex_slow) ''res_freq'' = Inr 4"
  "getattr_num (attrs ex_slow) ''wd'' = Inr (PI2 * (1 / 2))"
  "getattr_num (attrs ex_slow) ''trigger'' = Inr (1 / 4)"
  "getattr_num (attrs ex_slow) ''delta'' = Inr (pi / 4)"
  "getattr_num (attrs ex_slow) ''amp'' = Inr 1"
  "attrs ex_slow ''tau'' = Some (PFloat 1)"
  "\<exists>F. getattr_num (attrs ex_slow) ''f0'' = Inr F"
  "getattr_num (attrs ex_slow) ''w0'' = Inr (PI2 * 4)"
  "getattr_num (attrs ex_slow) ''q_factor'' = Inr (8 / 63)"
proof -
  obtain F where c: "init_cantilever ex3_can =
     Inr (ex3_can(''w0'' \<mapsto> PFloat (PI2 * 4), ''wd'' \<mapsto> PFloat (PI2 * (1 / 2)),
            ''beta'' \<mapsto> PFloat (PI2 * 4 / (2 * (8 / 63))),
            ''mass'' \<mapsto> PFloat (1 / (PI2 * 4) ^ 2),
            ''amp'' \<mapsto> PFloat (1 * 1), ''f0'' \<mapsto> PFloat F, ''delta'' \<mapsto> PFloat (pi / 4)))"
    using ex3_cantilever by blast
  have h: "cells ex_heap3 3 = ex3_can" "cells ex_heap3 4 = ex_force" "cells ex_heap3 5 = ex3_sim"
    by (simp_all add: ex_heap3_def)
  have nz: "PI2 \<noteq> 0" by (simp add: PI2_def)
  have a: "\<exists>tz fz. attrs ex_slow = ex3_can(''w0'' \<mapsto> PFloat (PI2 * 4), ''wd'' \<mapsto> PFloat (PI2 * (1 / 2)),
            ''beta'' \<mapsto> PFloat (PI2 * 4 / (2 * (8 / 63))),
            ''mass'' \<mapsto> PFloat (1 / (PI2 * 4) ^ 2),
            ''amp'' \<mapsto> PFloat (1 * 1), ''f0'' \<mapsto> PFloat F, ''delta'' \<mapsto> PFloat (pi / 4))
            ++ ex_force ++ [''delta_w'' \<mapsto> PFloat (PI2 * 0), ''fe'' \<mapsto> PFloat 0] ++ ex3_sim"
    unfolding ex_slow_def Cantilever_init_def h c bind_err_Inr
    using nz
    by (simp add: init_force_def init_sim_def ex_force_def ex3_sim_def ex3_can_def getattr_num_def
        py_div_def py_int_def np_linspace_def new_dict_def Let_def instance_of_def)
  then have a': "attrs ex_slow = ex3_can(''w0'' \<mapsto> PFloat (PI2 * 4), ''wd'' \<mapsto> PFloat (PI2 * (1 / 2)),
            ''beta'' \<mapsto> PFloat (PI2 * 4 / (2 * (8 / 63))),
            ''mass'' \<mapsto> PFloat (1 / (PI2 * 4) ^ 2),
            ''amp'' \<mapsto> PFloat (1 * 1), ''f0'' \<mapsto> PFloat F, ''delta'' \<mapsto> PFloat (pi / 4))
            ++ ex_force ++ [''delta_w'' \<mapsto> PFloat (PI2 * 0), ''fe'' \<mapsto> PFloat 0] ++ ex3_sim"
    by simp
  show "getattr_num (attrs ex_slow) ''total_time'' = Inr (7 / 8)"
    and "getattr_num (attrs ex_slow) ''sampling_rate'' = Inr 8"
    and "getattr_num (attrs ex_slow) ''res_freq'' = Inr 4"
    and "getattr_num (attrs ex_slow) ''wd'' = Inr (PI2 * (1 / 2))"
    and "getattr_num (attrs ex_slow) ''trigger'' = Inr (1 / 4)"
    and "getattr_num (attrs ex_slow) ''delta'' = Inr (pi / 4)"
    and "getattr_num (attrs ex_slow) ''amp'' = Inr 1"
    and "attrs ex_slow ''tau'' = Some (PFloat 1)"
    and "\<exists>F. getattr_num (attrs ex_slow) ''f0'' = Inr F"
    and "getattr_num (attrs ex_slow) ''w0'' = Inr (PI2 * 4)"
    and "getattr_num (attrs ex_slow) ''q_factor'' = Inr (8 / 63)"
    unfolding a'
    by (simp_all add: ex_force_def ex3_sim_def ex3_can_def getattr_num_def map_add_def)
qed


lemma ex3_t0:
  "1 / 4 + np_mod (np_mod (pi * 180 / 180) PI2 - np_mod (PI2 * (1 / 2) * (1 / 4) - pi / 4) PI2) PI2
      / (PI2 * (1 / 2)) = 5 / 4"
proof -
  have 1: "np_mod (pi * 180 / 180) PI2 = pi"
    by (rule trans [OF _ np_mod_small [of pi PI2]]) (simp_all add: PI2_def)
  have 2: "np_mod (PI2 * (1 / 2) * (1 / 4) - pi / 4) PI2 = 0"
    by (rule trans [OF _ np_mod_small [of 0 PI2]]) (simp_all add: PI2_def)
  have 3: "np_mod (pi - 0) PI2 = pi"
    by (rule trans [OF _ np_mod_small [of pi PI2]]) (simp_all add: PI2_def)
  show ?thesis unfolding 1 2 3 by (simp add: PI2_def)
qed

text \<open>Why the length theorem asks the pre-roll to cover a drive period: this cantilever is
  driven at 1/2 Hz with its resonance at 4 Hz, the pre-roll is 4 samples, the trim starts 8
  samples in, and of the 7 samples requested only 3 are left.\<close>

lemma ex_slow_short_waveform:
  "getattr_num (attrs ex_slow) ''total_time'' = Inr (7 / 8) \<and>
   getattr_num (attrs ex_slow) ''sampling_rate'' = Inr 8 \<and> py_int (7 / 8 * 8) = 7 \<and>
   map_sum id (length \<circ> fst) (fst (simulate const_flow 180 NoneArg ex_slow)) = Inr 3"
proof -
  obtain F where F: "getattr_num (attrs ex_slow) ''f0'' = Inr F" using ex3_attrs(9) by blast
  define sol where "sol = map (const_flow (dZ_dt F (PI2 * (1 / 2)) (PI2 * 4) (8 / 63))
       (1 * sin (- (pi / 4)), 1 * (PI2 * (1 / 2)) * cos (- (pi / 4))))
       (np_arange_div (py_int (2 * 8 / 4) + py_int (7 / 8 * 8)) 8)"
  have len: "length sol = 11" by (simp add: sol_def np_arange_div_def py_int_def)
  have l3: "length (py_slice sol 8 15) = 3" by (simp add: py_slice_def len)
  have nz: "PI2 * (1 / 2) \<noteq> 0" "(4::real) \<noteq> 0" by (simp_all add: PI2_def)
  obtain s' where "simulate const_flow 180 NoneArg ex_slow =
      (Inr (map fst (py_slice sol
         (py_int ((1 / 4 + np_mod (np_mod (pi * 180 / 180) PI2 - np_mod (PI2 * (1 / 2) * (1 / 4) - pi / 4) PI2) PI2 / (PI2 * (1 / 2))) * 8) - py_int (1 / 4 * 8))
         (py_int ((1 / 4 + np_mod (np_mod (pi * 180 / 180) PI2 - np_mod (PI2 * (1 / 2) * (1 / 4) - pi / 4) PI2) PI2 / (PI2 * (1 / 2))) * 8) + py_int (7 / 8 * 8) - py_int (1 / 4 * 8))), Infodict), s')"
    using simulate_no_Z0_run [OF ex3_attrs(1) ex3_attrs(2) ex3_attrs(3) nz(2) ex3_attrs(4) nz(1)
        ex3_attrs(5) ex3_attrs(6) ex3_attrs(7) ex3_attrs(8) F ex3_attrs(10) ex3_attrs(11),
        of const_flow 180]
    unfolding sol_def by blast
  then have "simulate const_flow 180 NoneArg ex_slow = (Inr (map fst (py_slice sol 8 15), Infodict), s')"
    unfolding ex3_t0 by (simp add: py_int_def)
  then have "map_sum id (length \<circ> fst) (fst (simulate const_flow 180 NoneArg ex_slow)) = Inr 3"
    by (simp add: l3)
  moreover have "py_int (7 / 8 * 8) = 7" by (simp add: py_int_def)
  ultimately show ?thesis using ex3_attrs(1) ex3_attrs(2) by blast
qed

end
